theory Spec2Isabelle
  imports Complex_Main
begin

section \<open>JavaScript strings\<close>

text \<open>
  A JavaScript string is a sequence of code units. The model uses \<^typ>\<open>string\<close>: each
  \<^typ>\<open>char\<close> stands for one code unit with a value below 256, and \<open>length\<close> is the
  source's \<open>.length\<close>. All patterns of the source are ASCII, and a code unit above 127
  never matches an ASCII letter (also under the \<open>i\<close> flag), so the functions below treat
  every non-ASCII code unit as an ordinary character.
\<close>

definition code :: "char \<Rightarrow> nat" where
  "code c = of_char c"

text \<open>The character class \<open>[a-zA-Z0-9]\<close>.\<close>

definition is_alnum :: "char \<Rightarrow> bool" where
  "is_alnum c =
     ((97 \<le> code c \<and> code c \<le> 122) \<or> (65 \<le> code c \<and> code c \<le> 90) \<or>
      (48 \<le> code c \<and> code c \<le> 57))"

definition is_digit :: "char \<Rightarrow> bool" where
  "is_digit c = (48 \<le> code c \<and> code c \<le> 57)"

text \<open>\<open>String.prototype.startsWith\<close> and \<open>String.prototype.includes\<close>.\<close>

definition startsWith :: "string \<Rightarrow> string \<Rightarrow> bool" where
  "startsWith s p = (take (length p) s = p)"

fun str_includes :: "string \<Rightarrow> string \<Rightarrow> bool" where
  "str_includes [] p = (p = [])"
| "str_includes (c # cs) p = (startsWith (c # cs) p \<or> str_includes cs p)"

text \<open>\<open>String.prototype.toLowerCase\<close>, on the ASCII letters.\<close>

definition lower_char :: "char \<Rightarrow> char" where
  "lower_char c = (if 65 \<le> code c \<and> code c \<le> 90 then char_of (code c + 32) else c)"

definition toLowerCase :: "string \<Rightarrow> string" where
  "toLowerCase s = map lower_char s"

text \<open>The decimal rendering of a natural number, as a template literal prints it.\<close>

fun show_nat :: "nat \<Rightarrow> string" where
  "show_nat n =
     (if n < 10 then [char_of (48 + n)] else show_nat (n div 10) @ [char_of (48 + n mod 10)])"

section \<open>Partition namer\<close>

text \<open>
  \<open>generateCollectionName\<close> of \<open>src/handlers/webhook.handler.js\<close>; the monolithic
  \<open>WebhookProcessor.generateCollectionName\<close> has the same body.
  \<open>path.replace(/[^a-zA-Z0-9]/g, "-")\<close> maps every code unit outside the class to a dash;
  \<open>replace(/^-+|-+$/g, "")\<close> removes the leading and the trailing run of dashes.
\<close>

definition replace_non_alnum :: "string \<Rightarrow> string" where
  "replace_non_alnum s = map (\<lambda>c. if is_alnum c then c else CHR ''-'') s"

definition strip_dashes :: "string \<Rightarrow> string" where
  "strip_dashes s =
     rev (dropWhile (\<lambda>c. c = CHR ''-'') (rev (dropWhile (\<lambda>c. c = CHR ''-'') s)))"

definition generateCollectionName :: "string \<Rightarrow> string" where
  "generateCollectionName path =
     (if path = [] \<or> path = ''/'' then ''root''
      else let collectionName = strip_dashes (replace_non_alnum path)
           in if collectionName = [] then ''unknown'' else collectionName)"

section \<open>Header utilities\<close>

text \<open>
  A header object is the list of its own enumerable properties in \<open>Object.entries\<close>
  order, with string values (the request shape is a map from strings to strings).
  An argument that is \<open>null\<close>, \<open>undefined\<close> or not an object is \<open>None\<close>.
\<close>

type_synonym headers = "(string \<times> string) list"

text \<open>
  \<open>sanitizeHeaders\<close> copies the entries into a fresh object with
  \<open>constructedHeaders[key] = value\<close>. For the key \<open>__proto__\<close> that assignment reaches the
  setter of \<open>Object.prototype\<close>, which ignores a string, so such an entry is not copied
  either.
\<close>

definition sanitizeHeaders :: "headers option \<Rightarrow> headers" where
  "sanitizeHeaders originalHeaders =
     (case originalHeaders of
        None \<Rightarrow> []
      | Some hs \<Rightarrow>
          filter (\<lambda>(key, v). toLowerCase key \<noteq> ''headers'' \<and> key \<noteq> ''__proto__'') hs)"

text \<open>
  \<open>JSON.stringify\<close> on an object with string values: each string is quoted by the
  language's \<open>QuoteJSONString\<close> (two-character escapes for the quote, the backslash and
  five control characters, \<open>\u00XX\<close> for the other code units below 32).
\<close>

definition hex_digit :: "nat \<Rightarrow> char" where
  "hex_digit n = (if n < 10 then char_of (48 + n) else char_of (87 + n))"

definition quote_char :: "char \<Rightarrow> string" where
  "quote_char c =
     (if code c = 8 then [CHR 0x5C, CHR ''b'']
      else if code c = 9 then [CHR 0x5C, CHR ''t'']
      else if code c = 10 then [CHR 0x5C, CHR ''n'']
      else if code c = 12 then [CHR 0x5C, CHR ''f'']
      else if code c = 13 then [CHR 0x5C, CHR ''r'']
      else if code c = 34 then [CHR 0x5C, CHR 0x22]
      else if code c = 92 then [CHR 0x5C, CHR 0x5C]
      else if code c < 32 then
        [CHR 0x5C, CHR ''u'', CHR ''0'', CHR ''0'', hex_digit (code c div 16), hex_digit (code c mod 16)]
      else [c])"

definition QuoteJSONString :: "string \<Rightarrow> string" where
  "QuoteJSONString s = [CHR 0x22] @ concat (map quote_char s) @ [CHR 0x22]"

fun join :: "string \<Rightarrow> string list \<Rightarrow> string" where
  "join sep [] = []"
| "join sep [x] = x"
| "join sep (x # y # ys) = x @ sep @ join sep (y # ys)"

definition JSON_stringify :: "headers \<Rightarrow> string" where
  "JSON_stringify hs =
     ''{'' @ join '','' (map (\<lambda>(key, v). QuoteJSONString key @ '':'' @ QuoteJSONString v) hs) @ ''}''"

text \<open>
  \<open>s.substring(0, e)\<close>: a negative end is taken as 0 and an end beyond the string as its
  length, which is what \<open>take (nat e)\<close> does.
\<close>

definition substring0 :: "string \<Rightarrow> int \<Rightarrow> string" where
  "substring0 s e = take (nat e) s"

definition truncation_suffix :: string where
  "truncation_suffix = [CHR '','', CHR 0x22] @ ''_truncated'' @ [CHR 0x22] @ '':true}''"

text \<open>
  \<open>HeadersUtil.createHeadersAttribute\<close>; the result is the \<open>StringValue\<close> of the
  attribute (its \<open>DataType\<close> is always \<open>"String"\<close>), \<open>None\<close> is \<open>null\<close>.
\<close>

definition createHeadersAttribute :: "headers option \<Rightarrow> int \<Rightarrow> string option" where
  "createHeadersAttribute hdrs maxSize =
     (case hdrs of
        None \<Rightarrow> None
      | Some hs \<Rightarrow>
          let sanitizedHeaders = sanitizeHeaders (Some hs) in
          if length sanitizedHeaders = 0 then None
          else let headersJson = JSON_stringify sanitizedHeaders in
            if int (length headersJson) \<le> maxSize then Some headersJson
            else Some (substring0 headersJson (maxSize - 20) @ truncation_suffix))"

subsection \<open>Advisory validation\<close>

text \<open>
  The three patterns of \<open>HeadersUtil.validateHeaders\<close>. \<open>/script/i\<close> and
  \<open>/javascript:/i\<close> carry no state: \<open>test\<close> holds when the string has the word in any
  mix of ASCII cases.
\<close>

definition script_test :: "string \<Rightarrow> bool" where
  "script_test s = str_includes (toLowerCase s) ''script''"

definition javascript_test :: "string \<Rightarrow> bool" where
  "javascript_test s = str_includes (toLowerCase s) ''javascript:''"

text \<open>
  \<open>/<[^>]*>/g\<close> has the \<open>g\<close> flag, so \<open>RegExp.prototype.test\<close> starts the search at
  the pattern object's \<open>lastIndex\<close> and stores the end of the match there, or 0 when
  nothing matches. The object is created once per call of \<open>validateHeaders\<close> and shared
  by all headers. A match starts at the first \<open><\<close> at or after \<open>lastIndex\<close> and ends
  after the first \<open>>\<close> that follows it.
\<close>

definition indexOf :: "char \<Rightarrow> string \<Rightarrow> nat \<Rightarrow> nat option" where
  "indexOf c s i =
     (let rest = drop i s; k = length (takeWhile (\<lambda>x. x \<noteq> c) rest)
      in if k < length rest then Some (i + k) else None)"

definition html_tag_exec :: "nat \<Rightarrow> string \<Rightarrow> nat option" where
  "html_tag_exec lastIndex s =
     (if lastIndex > length s then None
      else case indexOf CHR ''<'' s lastIndex of
             None \<Rightarrow> None
           | Some i \<Rightarrow> (case indexOf CHR ''>'' s (i + 1) of
                         None \<Rightarrow> None
                       | Some j \<Rightarrow> Some (j + 1)))"

definition html_tag_test :: "nat \<Rightarrow> string \<Rightarrow> bool \<times> nat" where
  "html_tag_test lastIndex s =
     (case html_tag_exec lastIndex s of None \<Rightarrow> (False, 0) | Some e \<Rightarrow> (True, e))"

definition dq :: string where
  "dq = [CHR 0x22]"

definition in_header :: "string \<Rightarrow> string \<Rightarrow> string" where
  "in_header message key = message @ '' in header '' @ dq @ key @ dq"

definition too_long_issue :: "string \<Rightarrow> nat \<Rightarrow> string" where
  "too_long_issue key n =
     ''Header '' @ dq @ key @ dq @ '' exceeds maximum length ('' @ show_nat n @ '' bytes)''"

text \<open>
  The body of the loop over the entries: the length check, then the three patterns in
  their order, each as \<open>pattern.test(headerValue) || pattern.test(key)\<close>. The state is the
  \<open>lastIndex\<close> of the HTML pattern.
\<close>

definition check_header :: "nat \<Rightarrow> string \<times> string \<Rightarrow> string list \<times> nat" where
  "check_header lastIndex entry =
     (let key = fst entry; headerValue = snd entry;
          long = (if length headerValue > 8192
                  then [too_long_issue key (length headerValue)] else []);
          script = (if script_test headerValue \<or> script_test key
                    then [in_header ''Script content detected in headers'' key] else []);
          on_value = html_tag_test lastIndex headerValue;
          on_either = (if fst on_value then on_value else html_tag_test (snd on_value) key);
          html = (if fst on_either
                  then [in_header ''HTML tags detected in headers'' key] else []);
          js = (if javascript_test headerValue \<or> javascript_test key
                then [in_header ''JavaScript protocol detected in headers'' key] else [])
      in (long @ script @ html @ js, snd on_either))"

fun check_headers :: "nat \<Rightarrow> headers \<Rightarrow> string list" where
  "check_headers lastIndex [] = []"
| "check_headers lastIndex (entry # rest) =
     (let r = check_header lastIndex entry in fst r @ check_headers (snd r) rest)"

record validation =
  isValid :: bool
  issues :: "string list"

definition validateHeaders :: "headers option \<Rightarrow> validation" where
  "validateHeaders hdrs =
     (case hdrs of
        None \<Rightarrow> \<lparr>isValid = True, issues = []\<rparr>
      | Some hs \<Rightarrow>
          let found = check_headers 0 hs
          in \<lparr>isValid = (length found = 0), issues = found\<rparr>)"

section \<open>Webhook receiver\<close>

subsection \<open>Values, environment and requests\<close>

text \<open>
  A value as \<open>JSON.parse\<close> returns it; numbers are restricted to integers, and an object
  is the list of its properties.
\<close>

datatype jsval =
  JNull
| JBool bool
| JNum int
| JStr string
| JArr "jsval list"
| JObj "(string \<times> jsval) list"

text \<open>
  Truthiness of a string that may be absent (an environment variable, a cached value):
  \<open>undefined\<close> and the empty string are falsy.
\<close>

definition truthy :: "string option \<Rightarrow> bool" where
  "truthy v = (case v of None \<Rightarrow> False | Some s \<Rightarrow> s \<noteq> [])"

text \<open>
  The API Gateway event and the Lambda context of one invocation. An absent field is
  \<open>None\<close>; the optional chains \<open>event.requestContext?.x\<close> of the source read these fields.
\<close>

record request =
  httpMethod :: "string option"
  domainName :: "string option"
  stage :: "string option"
  event_path :: "string option"
  event_headers :: "headers option"
  event_queryStringParameters :: "headers option"
  event_sourceIp :: "string option"
  event_isBase64Encoded :: "bool option"
  body :: "string option"
  awsRequestId :: string
  functionName :: "string option"

record transport =
  "method" :: string
  path :: string
  headers :: headers
  queryStringParameters :: headers
  sourceIp :: string

record event_data =
  source :: string
  transport :: transport
  payload :: jsval
  type :: string
  isBase64Encoded :: bool

text \<open>
  What lies outside the handlers: the process environment, the language's \<open>JSON.parse\<close>
  (\<open>None\<close> when it throws) and the awaited calls to the parameter store, to the SDK
  client of the topic (\<open>snsClient.send\<close> of the publish command built for a topic and an
  event) and to the document store. A call that rejects yields \<open>Inl\<close> of the error's
  message.
\<close>

record env =
  MONGODB_URI_PARAMETER :: "string option"
  SNS_TOPIC_ARN :: "string option"
  AWS_LAMBDA_FUNCTION_NAME :: "string option"
  JSON_parse :: "string \<Rightarrow> jsval option"
  ssm_getParameter :: "string \<Rightarrow> string + string"
  snsClient_send :: "string \<Rightarrow> event_data \<Rightarrow> string + unit"
  mongo_storeWebhookEvent :: "string \<Rightarrow> string \<Rightarrow> string \<Rightarrow> event_data \<Rightarrow> string + unit"

subsection \<open>Event normaliser\<close>

text \<open>
  \<open>extractEventData\<close>, the same in both handlers. The timestamp (a clock reading) is left
  out of the record.
\<close>

definition extractEventData :: "env \<Rightarrow> request \<Rightarrow> event_data" where
  "extractEventData e event =
     (let domain = (case domainName event of None \<Rightarrow> ''unknown-domain'' | Some d \<Rightarrow> d);
          stg = (case stage event of None \<Rightarrow> [] | Some s \<Rightarrow> s);
          pth = (case event_path event of None \<Rightarrow> ''/'' | Some p \<Rightarrow> p);
          src = ''https://'' @ domain @ (if stg \<noteq> [] then ''/'' @ stg else []) @ pth;
          mth = (case httpMethod event of None \<Rightarrow> ''UNKNOWN'' | Some m \<Rightarrow> m);
          hdrs = (case event_headers event of None \<Rightarrow> [] | Some h \<Rightarrow> h);
          queryParams = (case event_queryStringParameters event of None \<Rightarrow> [] | Some q \<Rightarrow> q);
          ip = (case event_sourceIp event of None \<Rightarrow> ''unknown'' | Some i \<Rightarrow> i);
          b64 = (case event_isBase64Encoded event of None \<Rightarrow> False | Some b \<Rightarrow> b);
          raw = (case body event of None \<Rightarrow> [] | Some b \<Rightarrow> b);
          parsed = (if raw \<noteq> [] then JSON_parse e raw else None)
      in \<lparr>source = src,
          transport = \<lparr>method = mth, path = pth, headers = hdrs,
                       queryStringParameters = queryParams, sourceIp = ip\<rparr>,
          payload = (case parsed of None \<Rightarrow> JStr raw | Some v \<Rightarrow> v),
          type = (case parsed of None \<Rightarrow> ''text/plain'' | Some v \<Rightarrow> ''application/json''),
          isBase64Encoded = b64\<rparr>)"

subsection \<open>Responses\<close>

text \<open>
  A response with the fields of its JSON body; a field the body does not have is \<open>None\<close>.
  \<open>processing_time_ms\<close>, the difference of two clock readings, is left out.
\<close>

record response =
  statusCode :: nat
  Allow :: "string option"
  message :: string
  error :: "string option"
  allowed_methods :: "string list option"
  requestId :: string
  database :: "string option"
  collection :: "string option"
  operations_status :: "(string \<times> string) list"

definition method_not_allowed :: "string \<Rightarrow> request \<Rightarrow> response" where
  "method_not_allowed err event =
     \<lparr>statusCode = 405, Allow = Some ''POST, PUT, PATCH, DELETE'',
      message = ''Method Not Allowed'', error = Some err,
      allowed_methods = Some [''POST'', ''PUT'', ''PATCH'', ''DELETE''],
      requestId = awsRequestId event, database = None, collection = None,
      operations_status = []\<rparr>"

definition error_response :: "string \<Rightarrow> request \<Rightarrow> response" where
  "error_response err event =
     \<lparr>statusCode = 500, Allow = None, message = ''Error processing webhook'',
      error = Some err, allowed_methods = None, requestId = awsRequestId event,
      database = None, collection = None, operations_status = []\<rparr>"

subsection \<open>Dual-sink dispatch\<close>

text \<open>
  The result object of one branch, and an entry of the array \<open>Promise.allSettled\<close>
  resolves to. \<open>results[i]?.value\<close> is \<open>undefined\<close> (\<open>None\<close>) past the end of the array and
  for a rejected entry.
\<close>

record op_result =
  success :: bool
  operation :: string
  op_error :: "string option"

datatype 'a settled = Fulfilled 'a | Rejected string

definition value_at :: "'a settled list \<Rightarrow> nat \<Rightarrow> 'a option" where
  "value_at results i =
     (if i < length results
      then (case results ! i of Fulfilled v \<Rightarrow> Some v | Rejected r \<Rightarrow> None)
      else None)"

definition success_result :: "string \<Rightarrow> op_result" where
  "success_result name = \<lparr>success = True, operation = name, op_error = None\<rparr>"

definition failure_result :: "string \<Rightarrow> string \<Rightarrow> op_result" where
  "failure_result name err = \<lparr>success = False, operation = name, op_error = Some err\<rparr>"

text \<open>
  The composition of the response from the two settled results (lines 285 to 322 of the
  modular handler, 505 to 542 of the monolithic one; the text is the same).
\<close>

definition compose_response ::
  "op_result option \<Rightarrow> op_result option \<Rightarrow> string \<Rightarrow> string \<Rightarrow> request \<Rightarrow> response" where
  "compose_response mongoResult snsResult databaseName collectionName event =
     (let mongoSuccess = (case mongoResult of None \<Rightarrow> False | Some r \<Rightarrow> success r);
          snsSuccess = (case snsResult of None \<Rightarrow> True | Some r \<Rightarrow> success r);
          composed =
            (if mongoSuccess \<and> snsSuccess then
               (''Webhook received, logged, stored, and published successfully'',
                [(''mongodb'', ''success''), (''sns'', ''success'')])
             else if mongoSuccess \<and> \<not> snsSuccess then
               (''Webhook received, logged, and stored successfully. SNS publishing failed.'',
                [(''mongodb'', ''success''), (''sns'', ''failed'')])
             else if \<not> mongoSuccess \<and> snsSuccess then
               (''Webhook received, logged, and published successfully. MongoDB storage failed.'',
                [(''mongodb'', ''failed''), (''sns'', ''success'')])
             else
               (''Webhook received and logged successfully. Both MongoDB storage and SNS publishing failed.'',
                [(''mongodb'', ''failed''), (''sns'', ''failed'')]))
      in \<lparr>statusCode = 200, Allow = None, message = fst composed, error = None,
          allowed_methods = None, requestId = awsRequestId event,
          database = Some databaseName, collection = Some collectionName,
          operations_status = snd composed\<rparr>)"

definition detectEnvironment :: "string option \<Rightarrow> string" where
  "detectEnvironment name =
     (let functionName = (case name of None \<Rightarrow> [] | Some n \<Rightarrow> n)
      in if str_includes functionName ''dev'' then ''dev''
         else if str_includes functionName ''prod'' then ''prod''
         else ''unknown'')"

definition generateDatabaseName :: "string \<Rightarrow> string" where
  "generateDatabaseName environment = environment @ ''-webhook''"

text \<open>
  \<open>SNSService.publishWebhookEvent\<close> of the modular service: the message and its
  attributes are built, the command is sent, and a failure is thrown again under a new
  message.
\<close>

definition publishWebhookEvent :: "env \<Rightarrow> string \<Rightarrow> event_data \<Rightarrow> string + unit" where
  "publishWebhookEvent e topicArn eventData =
     (case snsClient_send e topicArn eventData of
        Inl err \<Rightarrow> Inl (''SNS publish failed: '' @ err)
      | Inr u \<Rightarrow> Inr ())"

text \<open>The fan-out branch: the publish call with its outcome recovered into a result.\<close>

definition snsOperation :: "env \<Rightarrow> string \<Rightarrow> event_data \<Rightarrow> op_result" where
  "snsOperation e topicArn eventData =
     (case publishWebhookEvent e topicArn eventData of
        Inr u \<Rightarrow> success_result ''sns''
      | Inl err \<Rightarrow> failure_result ''sns'' err)"

subsection \<open>The monolithic handler\<close>

text \<open>
  The state is the module variable \<open>mongoUri\<close>, the cached connection string; the handler
  returns the response and the new state.
\<close>

definition mongoOperation :: "env \<Rightarrow> string \<Rightarrow> string \<Rightarrow> string \<Rightarrow> event_data \<Rightarrow> op_result" where
  "mongoOperation e uri databaseName collectionName eventData =
     (case mongo_storeWebhookEvent e uri databaseName collectionName eventData of
        Inr u \<Rightarrow> success_result ''mongodb''
      | Inl err \<Rightarrow> failure_result ''mongodb'' err)"

text \<open>
  \<open>headers[a] || headers[b]\<close>: the first of the two properties when it is a non-empty
  string, else the second.
\<close>

definition header_or :: "headers \<Rightarrow> string \<Rightarrow> string \<Rightarrow> string option" where
  "header_or hs a b = (if truthy (map_of hs a) then map_of hs a else map_of hs b)"

text \<open>
  \<open>SNSService.publishWebhookEvent\<close> of the monolithic file. The attribute
  \<open>x-datadog-trace-id\<close> is built as \<open>datadogTraceId || correlationId\<close>, and the function
  declares no \<open>correlationId\<close>: when the trace id is absent or empty the expression
  throws a \<open>ReferenceError\<close> before any command is sent, and the \<open>catch\<close> throws it again
  under the publish message.
\<close>

definition monolithic_publishWebhookEvent ::
  "env \<Rightarrow> string \<Rightarrow> event_data \<Rightarrow> string option \<Rightarrow> string + unit" where
  "monolithic_publishWebhookEvent e topicArn eventData datadogTraceId =
     (if \<not> truthy datadogTraceId then Inl ''SNS publish failed: correlationId is not defined''
      else case snsClient_send e topicArn eventData of
             Inl err \<Rightarrow> Inl (''SNS publish failed: '' @ err)
           | Inr u \<Rightarrow> Inr ())"

definition monolithic_snsOperation ::
  "env \<Rightarrow> string \<Rightarrow> event_data \<Rightarrow> string option \<Rightarrow> op_result" where
  "monolithic_snsOperation e topicArn eventData datadogTraceId =
     (case monolithic_publishWebhookEvent e topicArn eventData datadogTraceId of
        Inr u \<Rightarrow> success_result ''sns''
      | Inl err \<Rightarrow> failure_result ''sns'' err)"

definition monolithic_resolve_uri :: "env \<Rightarrow> string option \<Rightarrow> string + string" where
  "monolithic_resolve_uri e mongoUri =
     (if \<not> truthy mongoUri then
        (if \<not> truthy (MONGODB_URI_PARAMETER e)
         then Inl ''MONGODB_URI_PARAMETER environment variable not set''
         else ssm_getParameter e (the (MONGODB_URI_PARAMETER e)))
      else Inr (the mongoUri))"

definition monolithic_handler :: "env \<Rightarrow> string option \<Rightarrow> request \<Rightarrow> response \<times> string option" where
  "monolithic_handler e mongoUri event =
     (if httpMethod event = Some ''GET'' then
        (method_not_allowed ''GET requests are not supported by this webhook endpoint'' event,
         mongoUri)
      else
        let eventData = extractEventData e event in
        case monolithic_resolve_uri e mongoUri of
          Inl err \<Rightarrow> (error_response err event, mongoUri)
        | Inr uri \<Rightarrow>
            let environment = detectEnvironment (functionName event);
                databaseName = generateDatabaseName environment;
                collectionName = generateCollectionName (path (transport eventData));
                datadogTraceId =
                  header_or (headers (transport eventData))
                    ''x-datadog-trace-id'' ''X-Datadog-Trace-Id'';
                operations =
                  [mongoOperation e uri databaseName collectionName eventData] @
                  (if truthy (SNS_TOPIC_ARN e)
                   then [monolithic_snsOperation e (the (SNS_TOPIC_ARN e)) eventData datadogTraceId]
                   else []);
                results = map Fulfilled operations;
                mongoResult = value_at results 0;
                snsResult = value_at results 1
            in (compose_response mongoResult snsResult databaseName collectionName event,
                Some uri))"

subsection \<open>The modular handler\<close>

record config =
  snsTopicArn :: "string option"
  mongodbUriParameter :: string
  allowedMethods :: "string list"
  environment :: string

text \<open>
  \<open>getConfig\<close>: the constructor of \<open>Config\<close> throws when the one setting with no default
  is missing. The environment is fixed for the life of the process, so the cached
  instance is the value computed here.
\<close>

definition getConfig :: "env \<Rightarrow> string + config" where
  "getConfig e =
     (if \<not> truthy (MONGODB_URI_PARAMETER e)
      then Inl ''Missing required configuration: MONGODB_URI_PARAMETER''
      else Inr \<lparr>snsTopicArn = SNS_TOPIC_ARN e,
                mongodbUriParameter = the (MONGODB_URI_PARAMETER e),
                allowedMethods = [''POST'', ''PUT'', ''PATCH'', ''DELETE''],
                environment = detectEnvironment (AWS_LAMBDA_FUNCTION_NAME e)\<rparr>)"

definition isSNSConfigured :: "config \<Rightarrow> bool" where
  "isSNSConfigured c = truthy (snsTopicArn c)"

definition getDatabaseName :: "config \<Rightarrow> string" where
  "getDatabaseName c = environment c @ ''-webhook''"

definition validateMethod :: "env \<Rightarrow> string option \<Rightarrow> string + bool" where
  "validateMethod e m =
     (case getConfig e of
        Inl err \<Rightarrow> Inl err
      | Inr c \<Rightarrow> Inr (case m of None \<Rightarrow> False | Some s \<Rightarrow> s \<in> set (allowedMethods c)))"

text \<open>\<open>storeWebhook\<close>, the placeholder of the modular handler.\<close>

definition storeWebhook :: "string \<Rightarrow> string \<Rightarrow> event_data \<Rightarrow> op_result" where
  "storeWebhook databaseName collectionName eventData = success_result ''mongodb''"

definition processWebhook :: "env \<Rightarrow> string option \<Rightarrow> request \<Rightarrow> response \<times> string option" where
  "processWebhook e mongoUri event =
     (case getConfig e of
        Inl err \<Rightarrow> (error_response err event, mongoUri)
      | Inr c \<Rightarrow>
          let eventData = extractEventData e event in
          case (if \<not> truthy mongoUri then ssm_getParameter e (mongodbUriParameter c)
                else Inr (the mongoUri)) of
            Inl err \<Rightarrow> (error_response err event, mongoUri)
          | Inr uri \<Rightarrow>
              let databaseName = getDatabaseName c;
                  collectionName = generateCollectionName (path (transport eventData));
                  operations =
                    [storeWebhook databaseName collectionName eventData] @
                    (if isSNSConfigured c
                     then [snsOperation e (the (snsTopicArn c)) eventData] else []);
                  results = map Fulfilled operations;
                  mongoResult = value_at results 0;
                  snsResult = value_at results 1
              in (compose_response mongoResult snsResult databaseName collectionName event,
                  Some uri))"

text \<open>
  The exported handler. \<open>validateMethod\<close> is called outside any \<open>try\<close>: when it throws, the
  handler's promise rejects (\<open>Inl\<close>) and there is no response.
\<close>

definition handler :: "env \<Rightarrow> string option \<Rightarrow> request \<Rightarrow> string + (response \<times> string option)" where
  "handler e mongoUri event =
     (if httpMethod event = Some ''GET'' then
        Inr (method_not_allowed ''GET requests are not supported by this webhook endpoint'' event,
             mongoUri)
      else case validateMethod e (httpMethod event) of
             Inl err \<Rightarrow> Inl err
           | Inr ok \<Rightarrow>
               if \<not> ok then
                 Inr (method_not_allowed
                        ((case httpMethod event of None \<Rightarrow> ''undefined'' | Some m \<Rightarrow> m) @
                         '' requests are not supported'') event,
                      mongoUri)
               else Inr (processWebhook e mongoUri event))"

subsection \<open>A concrete request and environment\<close>

text \<open>
  A POST to \<open>/messages/telegram\<close> with a JSON body and the two headers
  \<open>X-Correlation-ID\<close> and \<open>x-datadog-trace-id\<close>, and an environment in which the
  parameter store answers, the document store succeeds or fails as \<open>store_ok\<close> says and
  the topic, when one is configured, accepts or refuses as \<open>publish_ok\<close> says.
\<close>

definition example_request :: request where
  "example_request =
     \<lparr>httpMethod = Some ''POST'', domainName = Some ''hooks.example.com'', stage = Some ''prod'',
      event_path = Some ''/messages/telegram'',
      event_headers = Some [(''X-Correlation-ID'', ''test-123''), (''x-datadog-trace-id'', ''7001'')],
      event_queryStringParameters = None, event_sourceIp = Some ''192.0.2.1'',
      event_isBase64Encoded = Some False, body = Some ''{}'',
      awsRequestId = ''req-1'', functionName = Some ''webhook-receiver-prod''\<rparr>"

text \<open>The same request without the trace header.\<close>

definition untraced_request :: request where
  "untraced_request =
     example_request\<lparr>event_headers := Some [(''X-Correlation-ID'', ''test-123'')]\<rparr>"

definition example_env :: "string option \<Rightarrow> bool \<Rightarrow> bool \<Rightarrow> env" where
  "example_env topic store_ok publish_ok =
     \<lparr>MONGODB_URI_PARAMETER = Some ''/webhook/receiver/prod/mongodb-uri'',
      SNS_TOPIC_ARN = topic,
      AWS_LAMBDA_FUNCTION_NAME = Some ''webhook-receiver-prod'',
      JSON_parse = (\<lambda>s. if s = ''{}'' then Some (JObj []) else None),
      ssm_getParameter = (\<lambda>name. Inr ''mongodb://db.example.com''),
      snsClient_send = (\<lambda>arn ed. if publish_ok then Inr () else Inl ''refused''),
      mongo_storeWebhookEvent =
        (\<lambda>uri db coll ed. if store_ok then Inr () else Inl ''connection refused'')\<rparr>"

text \<open>
  The same request with the method \<open>OPTIONS\<close>, and the environment (no topic, a store
  that succeeds) once as it is and once without the setting \<open>MONGODB_URI_PARAMETER\<close>.
\<close>

definition options_request :: request where
  "options_request = example_request\<lparr>httpMethod := Some ''OPTIONS''\<rparr>"

definition unconfigured_env :: env where
  "unconfigured_env = (example_env None True True)\<lparr>MONGODB_URI_PARAMETER := None\<rparr>"

section \<open>Dead-letter processor\<close>

subsection \<open>Values and numbers\<close>

text \<open>
  Property access, truthiness and the conversion to a string of a parsed value.
  \<open>get_prop\<close> is for a value that is not \<open>null\<close>: on a primitive or an array the two
  properties the source reads (\<open>Message\<close>, \<open>path\<close>) do not exist.
\<close>

definition get_prop :: "jsval \<Rightarrow> string \<Rightarrow> jsval option" where
  "get_prop v name = (case v of JObj props \<Rightarrow> map_of props name | _ \<Rightarrow> None)"

definition js_truthy :: "jsval \<Rightarrow> bool" where
  "js_truthy v =
     (case v of
        JNull \<Rightarrow> False
      | JBool b \<Rightarrow> b
      | JNum n \<Rightarrow> n \<noteq> 0
      | JStr s \<Rightarrow> s \<noteq> []
      | JArr xs \<Rightarrow> True
      | JObj props \<Rightarrow> True)"

definition show_int :: "int \<Rightarrow> string" where
  "show_int n = (if n < 0 then ''-'' @ show_nat (nat (- n)) else show_nat (nat n))"

fun toString :: "jsval \<Rightarrow> string"
  and element_strings :: "jsval list \<Rightarrow> string list" where
  "toString JNull = ''null''"
| "toString (JBool b) = (if b then ''true'' else ''false'')"
| "toString (JNum n) = show_int n"
| "toString (JStr s) = s"
| "toString (JArr xs) = join '','' (element_strings xs)"
| "toString (JObj props) = ''[object Object]''"
| "element_strings [] = []"
| "element_strings (v # vs) = (if v = JNull then [] else toString v) # element_strings vs"

text \<open>
  A number of the source: \<open>NaN\<close> or a rational. The values compared in the source are
  differences of millisecond counts divided by 3600000; on them the comparison of the
  doubles with 24 agrees with the exact one.
\<close>

datatype jsnum = NaN | Num rat

definition js_sub :: "jsnum \<Rightarrow> jsnum \<Rightarrow> jsnum" where
  "js_sub a b = (case a of NaN \<Rightarrow> NaN | Num x \<Rightarrow> (case b of NaN \<Rightarrow> NaN | Num y \<Rightarrow> Num (x - y)))"

text \<open>Division by a non-zero constant.\<close>

definition js_div :: "jsnum \<Rightarrow> rat \<Rightarrow> jsnum" where
  "js_div a d = (case a of NaN \<Rightarrow> NaN | Num x \<Rightarrow> Num (x / d))"

definition js_gt :: "jsnum \<Rightarrow> rat \<Rightarrow> bool" where
  "js_gt a b = (case a of NaN \<Rightarrow> False | Num x \<Rightarrow> x > b)"

text \<open>
  \<open>parseInt\<close> with no radix, on a string or \<open>undefined\<close> (\<open>None\<close>): leading white space is
  skipped, a sign is read, a prefix \<open>0x\<close> selects radix 16, and the longest run of digits
  is the value; with no digit the result is \<open>NaN\<close>.
\<close>

definition is_space :: "char \<Rightarrow> bool" where
  "is_space c = (code c \<in> {9, 10, 11, 12, 13, 32, 160})"

definition digit_value :: "nat \<Rightarrow> char \<Rightarrow> nat option" where
  "digit_value radix c =
     (let v = (if 48 \<le> code c \<and> code c \<le> 57 then Some (code c - 48)
               else if 97 \<le> code c \<and> code c \<le> 122 then Some (code c - 87)
               else if 65 \<le> code c \<and> code c \<le> 90 then Some (code c - 55)
               else None)
      in case v of None \<Rightarrow> None | Some d \<Rightarrow> if d < radix then Some d else None)"

definition parseInt :: "string option \<Rightarrow> jsnum" where
  "parseInt v =
     (case v of
        None \<Rightarrow> NaN
      | Some s \<Rightarrow>
          let t = dropWhile is_space s;
              negative = startsWith t ''-'' \<and> t \<noteq> [];
              t1 = (if t \<noteq> [] \<and> (startsWith t ''-'' \<or> startsWith t ''+'') then tl t else t);
              hex = (length t1 \<ge> 2 \<and> (startsWith t1 ''0x'' \<or> startsWith t1 ''0X''));
              radix = (if hex then 16 else 10);
              t2 = (if hex then drop 2 t1 else t1);
              digits = takeWhile (\<lambda>c. digit_value radix c \<noteq> None) t2;
              magnitude = foldl (\<lambda>a c. a * int radix + int (the (digit_value radix c))) 0 digits
          in if digits = [] then NaN
             else Num (of_int (if negative then - magnitude else magnitude)))"

subsection \<open>Entries, failure information and analysis\<close>

text \<open>
  One SQS record. \<open>ApproximateReceiveCount\<close> is the count the queue reports (a decimal
  string in the event, read as its number); the four message attributes are the
  \<open>stringValue\<close> of each, \<open>None\<close> when the attribute is absent.
\<close>

record sqs_record =
  record_messageId :: string
  record_body :: string
  ApproximateReceiveCount :: "nat option"
  ApproximateFirstReceiveTimestamp :: "string option"
  SentTimestamp :: "string option"
  TopicArn :: "string option"
  FailureReason :: "string option"
  Endpoint :: "string option"
  Protocol :: "string option"
  receiptHandle :: string

record failure_info =
  messageId :: string
  receiveCount :: nat
  firstReceiveTimestamp :: "string option"
  sentTimestamp :: "string option"
  originalTopicArn :: "string option"
  failureReason :: string
  subscriberEndpoint :: "string option"
  protocol :: "string option"

record analysis =
  shouldRetry :: bool
  isCritical :: bool
  failureType :: string
  recommendations :: "string list"

text \<open>What the source throws: the two language errors and the rejection of an awaited call.\<close>

datatype thrown = SyntaxError | TypeError | ServiceError string

definition extract_failure_info :: "sqs_record \<Rightarrow> failure_info" where
  "extract_failure_info r =
     \<lparr>messageId = record_messageId r,
      receiveCount = (case ApproximateReceiveCount r of None \<Rightarrow> 1 | Some n \<Rightarrow> n),
      firstReceiveTimestamp = ApproximateFirstReceiveTimestamp r,
      sentTimestamp = SentTimestamp r,
      originalTopicArn = TopicArn r,
      failureReason = (if truthy (FailureReason r) then the (FailureReason r) else ''Unknown''),
      subscriberEndpoint = Endpoint r,
      protocol = Protocol r\<rparr>"

text \<open>
  The three tests \<open>webhookEvent.path?.includes(...)\<close>: a \<open>TypeError\<close> on a \<open>null\<close> event or
  on a path that is neither a string nor an array.
\<close>

definition path_is_critical :: "jsval \<Rightarrow> thrown + bool" where
  "path_is_critical webhookEvent =
     (if webhookEvent = JNull then Inl TypeError
      else case get_prop webhookEvent ''path'' of
             None \<Rightarrow> Inr False
           | Some JNull \<Rightarrow> Inr False
           | Some (JStr p) \<Rightarrow>
               Inr (str_includes p ''/payment'' \<or> str_includes p ''/security'' \<or>
                    str_includes p ''/critical'')
           | Some (JArr xs) \<Rightarrow>
               Inr (JStr ''/payment'' \<in> set xs \<or> JStr ''/security'' \<in> set xs \<or>
                    JStr ''/critical'' \<in> set xs)
           | Some other \<Rightarrow> Inl TypeError)"

text \<open>
  \<open>analyzeFailure\<close>. \<open>classify\<close> is the chain of tests on the failure reason at its
  start, each a case-sensitive \<open>includes\<close>; \<open>now\<close> is the reading of \<open>Date.now()\<close>.
\<close>

definition classify :: "string \<Rightarrow> analysis" where
  "classify reason =
     (if str_includes reason ''timeout'' then
        \<lparr>shouldRetry = True, isCritical = False, failureType = ''timeout'',
         recommendations = [''Consider increasing timeout for subscriber'']\<rparr>
      else if str_includes reason ''5'' then
        \<lparr>shouldRetry = True, isCritical = False, failureType = ''server_error'',
         recommendations = [''Subscriber experiencing server errors'']\<rparr>
      else if str_includes reason ''4'' then
        \<lparr>shouldRetry = False, isCritical = False, failureType = ''client_error'',
         recommendations = [''Check subscriber configuration or webhook payload'']\<rparr>
      else
        \<lparr>shouldRetry = False, isCritical = False, failureType = ''unknown'',
         recommendations = []\<rparr>)"

definition analyzeFailure :: "int \<Rightarrow> failure_info \<Rightarrow> jsval \<Rightarrow> thrown + analysis" where
  "analyzeFailure now failureInfo webhookEvent =
     (let a1 = classify (failureReason failureInfo) in
      case path_is_critical webhookEvent of
        Inl t \<Rightarrow> Inl t
      | Inr critical \<Rightarrow>
          let a2 = (if critical then a1\<lparr>isCritical := True\<rparr> else a1);
              messageAgeMs = js_sub (Num (of_int now)) (parseInt (sentTimestamp failureInfo));
              messageAgeHours = js_div messageAgeMs (1000 * 60 * 60)
          in Inr (if js_gt messageAgeHours 24
                  then a2\<lparr>shouldRetry := False,
                          recommendations := recommendations a2 @ [''Message too old for retry'']\<rparr>
                  else a2))"

subsection \<open>Processing one entry\<close>

text \<open>
  The calls that leave the process, in the order they are issued. A call is recorded
  whether or not it succeeds. \<open>Republish\<close> carries the topic, the message object (which
  the source passes through \<open>JSON.stringify\<close>) and the message attributes of the publish
  command.
\<close>

datatype effect =
  PutMetricData string string bool
| Republish string jsval jsval
| CriticalNotification string failure_info jsval analysis
| ArchiveFailure failure_info jsval analysis
| DeleteMessage string string

text \<open>
  The environment of the processor: its settings, the clock, \<open>JSON.parse\<close> and the
  outcome of each awaited call for a given entry (\<open>Inl\<close> of the message when it rejects).
\<close>

record dlq_env =
  DLQ_URL :: "string option"
  CRITICAL_FAILURE_TOPIC_ARN :: "string option"
  Date_now :: int
  parse :: "string \<Rightarrow> jsval option"
  cloudwatch_send :: "sqs_record \<Rightarrow> string + unit"
  sns_republish :: "sqs_record \<Rightarrow> string + unit"
  sns_notify :: "sqs_record \<Rightarrow> string + unit"
  sqs_delete :: "sqs_record \<Rightarrow> string + unit"

text \<open>
  The two parsing steps: the body, then \<open>messageBody.Message || messageBody\<close>, kept as it
  is when it does not parse.
\<close>

definition parse_event :: "dlq_env \<Rightarrow> sqs_record \<Rightarrow> thrown + jsval" where
  "parse_event w r =
     (case parse w (record_body r) of
        None \<Rightarrow> Inl SyntaxError
      | Some messageBody \<Rightarrow>
          if messageBody = JNull then Inl TypeError
          else
            let inner = (case get_prop messageBody ''Message'' of
                           None \<Rightarrow> messageBody
                         | Some m \<Rightarrow> if js_truthy m then m else messageBody)
            in Inr (case parse w (toString inner) of None \<Rightarrow> inner | Some v \<Rightarrow> v))"

text \<open>
  \<open>sendMetrics\<close> catches the failure of its call (\<open>cloudwatch_send\<close>), so the outcome
  does not reach the caller.
\<close>

definition sendMetrics :: "failure_info \<Rightarrow> analysis \<Rightarrow> effect list" where
  "sendMetrics failureInfo a =
     [PutMetricData (if truthy (protocol failureInfo) then the (protocol failureInfo) else ''unknown'')
        (failureType a) (isCritical a)]"

text \<open>
  The object spread \<open>{...v}\<close>: the own properties of an object, the indexed elements of
  an array, the indexed characters of a string, and nothing for \<open>undefined\<close> (\<open>None\<close>),
  \<open>null\<close>, a number or a boolean. A property written after the spread replaces the value
  of a property of that name and is appended otherwise.
\<close>

fun indexed :: "nat \<Rightarrow> jsval list \<Rightarrow> (string \<times> jsval) list" where
  "indexed i [] = []"
| "indexed i (v # vs) = (show_nat i, v) # indexed (Suc i) vs"

definition spread :: "jsval option \<Rightarrow> (string \<times> jsval) list" where
  "spread v =
     (case v of
        None \<Rightarrow> []
      | Some (JObj props) \<Rightarrow> props
      | Some (JArr xs) \<Rightarrow> indexed 0 xs
      | Some (JStr s) \<Rightarrow> indexed 0 (map (\<lambda>c. JStr [c]) s)
      | Some other \<Rightarrow> [])"

definition set_prop :: "(string \<times> jsval) list \<Rightarrow> string \<Rightarrow> jsval \<Rightarrow> (string \<times> jsval) list" where
  "set_prop props name v =
     (if name \<in> set (map fst props)
      then map (\<lambda>p. if fst p = name then (name, v) else p) props
      else props @ [(name, v)])"

text \<open>
  The message and the attributes \<open>retryDelivery\<close> publishes: the event spread into a new
  object with the property \<open>_retry\<close>, and the event's \<open>MessageAttributes\<close> spread with
  \<open>RetryAttempt\<close>. The receive count is the number \<open>failure_info\<close> holds; the
  \<open>retryTimestamp\<close>, a clock reading, is left out.
\<close>

definition retry_message :: "jsval \<Rightarrow> failure_info \<Rightarrow> jsval" where
  "retry_message webhookEvent failureInfo =
     JObj (set_prop (spread (Some webhookEvent)) ''_retry''
             (JObj [(''attempt'', JNum (int (receiveCount failureInfo))),
                    (''originalMessageId'', JStr (messageId failureInfo)),
                    (''originalFailure'', JStr (failureReason failureInfo))]))"

definition retry_attributes :: "jsval \<Rightarrow> failure_info \<Rightarrow> jsval" where
  "retry_attributes webhookEvent failureInfo =
     JObj (set_prop (spread (get_prop webhookEvent ''MessageAttributes'')) ''RetryAttempt''
             (JObj [(''DataType'', JStr ''Number''),
                    (''StringValue'', JStr (show_nat (receiveCount failureInfo)))]))"

definition retryDelivery ::
  "dlq_env \<Rightarrow> sqs_record \<Rightarrow> jsval \<Rightarrow> failure_info \<Rightarrow> effect list \<times> (thrown + unit)" where
  "retryDelivery w r webhookEvent failureInfo =
     (if truthy (originalTopicArn failureInfo) then
        ([Republish (the (originalTopicArn failureInfo))
            (retry_message webhookEvent failureInfo)
            (retry_attributes webhookEvent failureInfo)],
         (case sns_republish w r of Inl err \<Rightarrow> Inl (ServiceError err) | Inr u \<Rightarrow> Inr ()))
      else ([], Inr ()))"

definition sendCriticalFailureNotification ::
  "dlq_env \<Rightarrow> sqs_record \<Rightarrow> failure_info \<Rightarrow> jsval \<Rightarrow> analysis \<Rightarrow> effect list \<times> (thrown + unit)" where
  "sendCriticalFailureNotification w r failureInfo webhookEvent a =
     ([CriticalNotification (the (CRITICAL_FAILURE_TOPIC_ARN w)) failureInfo webhookEvent a],
      (case sns_notify w r of Inl err \<Rightarrow> Inl (ServiceError err) | Inr u \<Rightarrow> Inr ()))"

record dlq_result =
  status :: string
  result_messageId :: string
  result_analysis :: "analysis option"
  result_error :: "thrown option"

definition processDLQMessage :: "dlq_env \<Rightarrow> sqs_record \<Rightarrow> effect list \<times> (thrown + dlq_result)" where
  "processDLQMessage w r =
     (let failureInfo = extract_failure_info r in
      case parse_event w r of
        Inl t \<Rightarrow> ([], Inl t)
      | Inr webhookEvent \<Rightarrow>
          (case analyzeFailure (Date_now w) failureInfo webhookEvent of
             Inl t \<Rightarrow> ([], Inl t)
           | Inr a \<Rightarrow>
               let metrics = sendMetrics failureInfo a;
                   step = (if shouldRetry a \<and> receiveCount failureInfo < 3
                           then retryDelivery w r webhookEvent failureInfo
                           else if truthy (CRITICAL_FAILURE_TOPIC_ARN w) \<and> isCritical a
                           then sendCriticalFailureNotification w r failureInfo webhookEvent a
                           else ([], Inr ()))
               in case snd step of
                    Inl t \<Rightarrow> (metrics @ fst step, Inl t)
                  | Inr u \<Rightarrow>
                      (metrics @ fst step @ [ArchiveFailure failureInfo webhookEvent a],
                       Inr \<lparr>status = ''processed'', result_messageId = record_messageId r,
                            result_analysis = Some a, result_error = None\<rparr>)))"

subsection \<open>The batch\<close>

definition failed_result :: "sqs_record \<Rightarrow> thrown \<Rightarrow> dlq_result" where
  "failed_result r t =
     \<lparr>status = ''failed'', result_messageId = record_messageId r,
      result_analysis = None, result_error = Some t\<rparr>"

text \<open>
  The body of the loop for one record: the results it pushes and the calls it issues. The
  delete call stands inside the same \<open>try\<close> as the push of the entry's result.
\<close>

definition process_record :: "dlq_env \<Rightarrow> sqs_record \<Rightarrow> dlq_result list \<times> effect list" where
  "process_record w r =
     (case processDLQMessage w r of
        (effects, Inl t) \<Rightarrow> ([failed_result r t], effects)
      | (effects, Inr result) \<Rightarrow>
          if truthy (DLQ_URL w) then
            (case sqs_delete w r of
               Inr u \<Rightarrow> ([result], effects @ [DeleteMessage (the (DLQ_URL w)) (receiptHandle r)])
             | Inl err \<Rightarrow>
                 ([result, failed_result r (ServiceError err)],
                  effects @ [DeleteMessage (the (DLQ_URL w)) (receiptHandle r)]))
          else ([result], effects))"

fun process_records ::
  "dlq_env \<Rightarrow> sqs_record list \<Rightarrow> dlq_result list \<Rightarrow> effect list \<Rightarrow> dlq_result list \<times> effect list" where
  "process_records w [] results trace = (results, trace)"
| "process_records w (r # rs) results trace =
     process_records w rs (results @ fst (process_record w r)) (trace @ snd (process_record w r))"

record summary =
  processed :: nat
  failed :: nat
  total :: nat

record dlq_response =
  dlq_statusCode :: nat
  dlq_summary :: summary
  dlq_results :: "dlq_result list"

text \<open>
  The exported handler on \<open>event.Records\<close> (\<open>None\<close> when the event has none); it returns
  the response and the calls issued.
\<close>

definition dlq_handler :: "dlq_env \<Rightarrow> sqs_record list option \<Rightarrow> dlq_response \<times> effect list" where
  "dlq_handler w records =
     (let run = process_records w (case records of None \<Rightarrow> [] | Some rs \<Rightarrow> rs) [] [];
          results = fst run
      in (\<lparr>dlq_statusCode = 200,
           dlq_summary =
             \<lparr>processed = length (filter (\<lambda>x. status x = ''processed'') results),
              failed = length (filter (\<lambda>x. status x = ''failed'') results),
              total = length results\<rparr>,
           dlq_results = results\<rparr>,
          snd run))"

subsection \<open>A concrete entry\<close>

text \<open>
  An SNS envelope around the event of a POST to \<open>/messages/telegram\<close>, sent one minute
  before the clock reading, and an environment whose calls succeed or fail as its
  arguments say.
\<close>

definition example_event :: jsval where
  "example_event = JObj [(''path'', JStr ''/messages/telegram''), (''method'', JStr ''POST'')]"

definition example_record :: "string \<Rightarrow> nat \<Rightarrow> string option \<Rightarrow> sqs_record" where
  "example_record reason count sent =
     \<lparr>record_messageId = ''m-1'', record_body = ''envelope'',
      ApproximateReceiveCount = Some count,
      ApproximateFirstReceiveTimestamp = Some ''1700000000500'',
      SentTimestamp = sent,
      TopicArn = Some ''arn:aws:sns:eu:1:hooks'',
      FailureReason = Some reason,
      Endpoint = Some ''https://subscriber.example.com/hook'',
      Protocol = Some ''https'',
      receiptHandle = ''rh-1''\<rparr>"

definition example_dlq_env :: "bool \<Rightarrow> bool \<Rightarrow> dlq_env" where
  "example_dlq_env republish_ok delete_ok =
     \<lparr>DLQ_URL = Some ''https://sqs.example.com/dlq'',
      CRITICAL_FAILURE_TOPIC_ARN = None,
      Date_now = 1700000060000,
      parse = (\<lambda>s. if s = ''envelope'' then Some (JObj [(''Message'', JStr ''event'')])
                    else if s = ''event'' then Some example_event
                    else None),
      cloudwatch_send = (\<lambda>r. Inr ()),
      sns_republish = (\<lambda>r. if republish_ok then Inr () else Inl ''publish refused''),
      sns_notify = (\<lambda>r. Inr ()),
      sqs_delete = (\<lambda>r. if delete_ok then Inr () else Inl ''delete refused'')\<rparr>"



section \<open>Response composition\<close>

lemma value_at_first: "value_at (Fulfilled x # xs) 0 = Some x"
  by (simp add: value_at_def)

lemma value_at_second_none: "value_at [Fulfilled x] (Suc 0) = None"
  by (simp add: value_at_def)

lemma value_at_second: "value_at [Fulfilled x, Fulfilled y] (Suc 0) = Some y"
  by (simp add: value_at_def)

lemma compose_response_status: "statusCode (compose_response m s db coll event) = 200"
  by (simp add: compose_response_def Let_def)

lemma compose_response_operations:
  "operations_status (compose_response m s db coll event) =
     [(''mongodb'', if (case m of None \<Rightarrow> False | Some r \<Rightarrow> success r) then ''success'' else ''failed''),
      (''sns'', if (case s of None \<Rightarrow> True | Some r \<Rightarrow> success r) then ''success'' else ''failed'')]"
  by (simp add: compose_response_def Let_def)

lemma compose_response_message:
  "message (compose_response m s db coll event) =
     (if (case m of None \<Rightarrow> False | Some r \<Rightarrow> success r)
      then (if (case s of None \<Rightarrow> True | Some r \<Rightarrow> success r)
            then ''Webhook received, logged, stored, and published successfully''
            else ''Webhook received, logged, and stored successfully. SNS publishing failed.'')
      else (if (case s of None \<Rightarrow> True | Some r \<Rightarrow> success r)
            then ''Webhook received, logged, and published successfully. MongoDB storage failed.''
            else ''Webhook received and logged successfully. Both MongoDB storage and SNS publishing failed.''))"
  by (simp add: compose_response_def Let_def)

lemma snsOperation_success:
  "success (snsOperation e arn ed) = (\<exists>u. snsClient_send e arn ed = Inr u)"
  by (cases "snsClient_send e arn ed")
     (simp_all add: snsOperation_def publishWebhookEvent_def success_result_def failure_result_def)

lemma monolithic_snsOperation_success:
  "success (monolithic_snsOperation e arn ed trace) =
     (truthy trace \<and> (\<exists>u. snsClient_send e arn ed = Inr u))"
  by (cases "snsClient_send e arn ed")
     (simp_all add: monolithic_snsOperation_def monolithic_publishWebhookEvent_def
        success_result_def failure_result_def)

lemma mongoOperation_success:
  "success (mongoOperation e uri db coll ed) = (\<exists>u. mongo_storeWebhookEvent e uri db coll ed = Inr u)"
  by (cases "mongo_storeWebhookEvent e uri db coll ed")
     (simp_all add: mongoOperation_def success_result_def failure_result_def)

lemma storeWebhook_success: "success (storeWebhook db coll ed) = True"
  by (simp add: storeWebhook_def success_result_def)

text \<open>The monolithic handler past its gate and its secret resolution.\<close>

lemma monolithic_handler_dispatch:
  assumes "httpMethod event \<noteq> Some ''GET''" and "monolithic_resolve_uri e mongoUri = Inr uri"
  shows "monolithic_handler e mongoUri event =
     (compose_response
        (Some (mongoOperation e uri (generateDatabaseName (detectEnvironment (functionName event)))
                 (generateCollectionName (path (transport (extractEventData e event))))
                 (extractEventData e event)))
        (if truthy (SNS_TOPIC_ARN e)
         then Some (monolithic_snsOperation e (the (SNS_TOPIC_ARN e)) (extractEventData e event)
                      (header_or (headers (transport (extractEventData e event)))
                         ''x-datadog-trace-id'' ''X-Datadog-Trace-Id''))
         else None)
        (generateDatabaseName (detectEnvironment (functionName event)))
        (generateCollectionName (path (transport (extractEventData e event)))) event,
      Some uri)"
  using assms
  by (simp add: monolithic_handler_def Let_def value_at_first value_at_second value_at_second_none)

lemma monolithic_handler_rejected:
  assumes "httpMethod event = Some ''GET''"
  shows "statusCode (fst (monolithic_handler e mongoUri event)) = 405"
  using assms by (simp add: monolithic_handler_def method_not_allowed_def)

lemma monolithic_handler_error:
  assumes "httpMethod event \<noteq> Some ''GET''" and "monolithic_resolve_uri e mongoUri = Inl err"
  shows "statusCode (fst (monolithic_handler e mongoUri event)) = 500"
  using assms by (simp add: monolithic_handler_def Let_def error_response_def)

text \<open>The modular \<open>processWebhook\<close> past its secret resolution.\<close>

lemma processWebhook_dispatch:
  assumes "getConfig e = Inr c"
    and "(if \<not> truthy mongoUri then ssm_getParameter e (mongodbUriParameter c)
          else Inr (the mongoUri)) = Inr uri"
  shows "processWebhook e mongoUri event =
     (compose_response
        (Some (storeWebhook (getDatabaseName c)
                 (generateCollectionName (path (transport (extractEventData e event))))
                 (extractEventData e event)))
        (if isSNSConfigured c
         then Some (snsOperation e (the (snsTopicArn c)) (extractEventData e event)) else None)
        (getDatabaseName c)
        (generateCollectionName (path (transport (extractEventData e event)))) event,
      Some uri)"
  using assms
  by (simp add: processWebhook_def Let_def value_at_first value_at_second value_at_second_none)

lemma processWebhook_error:
  assumes "getConfig e = Inr c"
    and "(if \<not> truthy mongoUri then ssm_getParameter e (mongodbUriParameter c)
          else Inr (the mongoUri)) = Inl err"
  shows "statusCode (fst (processWebhook e mongoUri event)) = 500"
  using assms by (simp add: processWebhook_def Let_def error_response_def)

lemma processWebhook_status:
  "statusCode (fst (processWebhook e mongoUri event)) = 200 \<or>
   statusCode (fst (processWebhook e mongoUri event)) = 500"
proof (cases "getConfig e")
  case (Inl err)
  then show ?thesis by (simp add: processWebhook_def error_response_def)
next
  case (Inr c)
  show ?thesis
  proof (cases "if \<not> truthy mongoUri then ssm_getParameter e (mongodbUriParameter c)
          else Inr (the mongoUri)")
    case (Inl err)
    with Inr show ?thesis using processWebhook_error by blast
  next
    case uri: (Inr uri)
    show ?thesis
      by (simp add: processWebhook_dispatch [OF Inr uri] compose_response_status)
  qed
qed

section \<open>The batch loop\<close>

lemma process_records_acc:
  "process_records w rs results trace =
     (results @ concat (map (\<lambda>r. fst (process_record w r)) rs),
      trace @ concat (map (\<lambda>r. snd (process_record w r)) rs))"
  by (induction rs arbitrary: results trace) simp_all

lemma dlq_handler_results:
  "dlq_results (fst (dlq_handler w (Some rs))) = concat (map (\<lambda>r. fst (process_record w r)) rs)"
  by (simp add: dlq_handler_def Let_def process_records_acc)

lemma dlq_handler_trace:
  "snd (dlq_handler w (Some rs)) = concat (map (\<lambda>r. snd (process_record w r)) rs)"
  by (simp add: dlq_handler_def Let_def process_records_acc)

lemma processDLQMessage_status:
  "snd (processDLQMessage w r) = Inr res \<Longrightarrow> status res = ''processed''"
  by (auto simp: processDLQMessage_def Let_def split: sum.splits if_splits)


section \<open>Failure analysis and orchestration\<close>

lemma classify_shouldRetry:
  "shouldRetry (classify reason) = (str_includes reason ''timeout'' \<or> str_includes reason ''5'')"
  by (simp add: classify_def)

lemma classify_recommendations:
  "''Message too old for retry'' \<notin> set (recommendations (classify reason))"
  by (simp add: classify_def)

lemma analyzeFailure_shouldRetry:
  assumes "analyzeFailure now failureInfo webhookEvent = Inr a"
  shows "shouldRetry a =
          (shouldRetry (classify (failureReason failureInfo)) \<and>
           \<not> js_gt (js_div (js_sub (Num (of_int now)) (parseInt (sentTimestamp failureInfo)))
                      (1000 * 60 * 60)) 24)"
  using assms
  by (cases "path_is_critical webhookEvent")
     (auto simp: analyzeFailure_def Let_def split: if_splits)

lemma analyzeFailure_recommendations:
  assumes "analyzeFailure now failureInfo webhookEvent = Inr a"
  shows "''Message too old for retry'' \<in> set (recommendations a) \<longleftrightarrow>
           js_gt (js_div (js_sub (Num (of_int now)) (parseInt (sentTimestamp failureInfo)))
                   (1000 * 60 * 60)) 24"
  using assms classify_recommendations [of "failureReason failureInfo"]
  by (cases "path_is_critical webhookEvent")
     (auto simp: analyzeFailure_def Let_def split: if_splits)

lemma processDLQMessage_effects:
  assumes "parse_event w r = Inr webhookEvent"
    and "analyzeFailure (Date_now w) (extract_failure_info r) webhookEvent = Inr a"
  shows "\<exists>rest. fst (processDLQMessage w r) =
           sendMetrics (extract_failure_info r) a @
           fst (if shouldRetry a \<and> receiveCount (extract_failure_info r) < 3
                then retryDelivery w r webhookEvent (extract_failure_info r)
                else if truthy (CRITICAL_FAILURE_TOPIC_ARN w) \<and> isCritical a
                then sendCriticalFailureNotification w r (extract_failure_info r) webhookEvent a
                else ([], Inr ())) @ rest \<and>
           (rest = [] \<or> rest = [ArchiveFailure (extract_failure_info r) webhookEvent a])"
  using assms by (simp add: processDLQMessage_def Let_def split: sum.splits)










lemma processDLQMessage_never_deletes:
  "DeleteMessage q h \<notin> set (fst (processDLQMessage w r))"
proof (cases "parse_event w r")
  case (Inl e)
  then show ?thesis by (simp add: processDLQMessage_def)
next
  case (Inr webhookEvent)
  show ?thesis
  proof (cases "analyzeFailure (Date_now w) (extract_failure_info r) webhookEvent")
    case (Inl e)
    then show ?thesis using Inr by (simp add: processDLQMessage_def)
  next
    case an: (Inr a)
    obtain rest where "fst (processDLQMessage w r) =
           sendMetrics (extract_failure_info r) a @
           fst (if shouldRetry a \<and> receiveCount (extract_failure_info r) < 3
                then retryDelivery w r webhookEvent (extract_failure_info r)
                else if truthy (CRITICAL_FAILURE_TOPIC_ARN w) \<and> isCritical a
                then sendCriticalFailureNotification w r (extract_failure_info r) webhookEvent a
                else ([], Inr ())) @ rest"
      "rest = [] \<or> rest = [ArchiveFailure (extract_failure_info r) webhookEvent a]"
      using processDLQMessage_effects [OF Inr an] by blast
    then show ?thesis
      by (auto simp: sendMetrics_def sendCriticalFailureNotification_def retryDelivery_def
          split: if_splits)
  qed
qed

section \<open>The dispatcher settles both branches\<close>

lemma monolithic_settle_all:
  assumes gate: "httpMethod event \<noteq> Some ''GET''"
    and uri: "monolithic_resolve_uri e mongoUri = Inr uri"
    and ed: "ed = extractEventData e event"
    and db: "db = generateDatabaseName (detectEnvironment (functionName event))"
    and coll: "coll = generateCollectionName (path (transport ed))"
    and store: "store_ok = (\<exists>u. mongo_storeWebhookEvent e uri db coll ed = Inr u)"
    and publish: "publish_ok = (\<not> truthy (SNS_TOPIC_ARN e) \<or>
                   (truthy (header_or (headers (transport ed))
                              ''x-datadog-trace-id'' ''X-Datadog-Trace-Id'') \<and>
                    (\<exists>u. snsClient_send e (the (SNS_TOPIC_ARN e)) ed = Inr u)))"
    and r: "r = fst (monolithic_handler e mongoUri event)"
  shows "statusCode r = 200"
    and "operations_status r =
           [(''mongodb'', if store_ok then ''success'' else ''failed''),
            (''sns'', if publish_ok then ''success'' else ''failed'')]"
    and "message r =
           (if store_ok
            then (if publish_ok
                  then ''Webhook received, logged, stored, and published successfully''
                  else ''Webhook received, logged, and stored successfully. SNS publishing failed.'')
            else (if publish_ok
                  then ''Webhook received, logged, and published successfully. MongoDB storage failed.''
                  else ''Webhook received and logged successfully. Both MongoDB storage and SNS publishing failed.''))"
proof -
  let ?m = "Some (mongoOperation e uri db coll ed)"
  let ?s = "if truthy (SNS_TOPIC_ARN e)
            then Some (monolithic_snsOperation e (the (SNS_TOPIC_ARN e)) ed
                         (header_or (headers (transport ed))
                            ''x-datadog-trace-id'' ''X-Datadog-Trace-Id''))
            else None"
  have eq: "r = compose_response ?m ?s db coll event"
    unfolding r ed db coll monolithic_handler_dispatch [OF gate uri] by (simp only: fst_conv)
  have m: "(case ?m of None \<Rightarrow> False | Some x \<Rightarrow> success x) = store_ok"
    by (simp add: mongoOperation_success store)
  have s: "(case ?s of None \<Rightarrow> True | Some x \<Rightarrow> success x) = publish_ok"
    by (simp add: monolithic_snsOperation_success publish)
  show "statusCode r = 200" unfolding eq by (rule compose_response_status)
  show "operations_status r =
           [(''mongodb'', if store_ok then ''success'' else ''failed''),
            (''sns'', if publish_ok then ''success'' else ''failed'')]"
    unfolding eq compose_response_operations m s ..
  show "message r =
           (if store_ok
            then (if publish_ok
                  then ''Webhook received, logged, stored, and published successfully''
                  else ''Webhook received, logged, and stored successfully. SNS publishing failed.'')
            else (if publish_ok
                  then ''Webhook received, logged, and published successfully. MongoDB storage failed.''
                  else ''Webhook received and logged successfully. Both MongoDB storage and SNS publishing failed.''))"
    unfolding eq compose_response_message m s ..
qed

lemma monolithic_non_200:
  assumes "statusCode (fst (monolithic_handler e mongoUri event)) \<noteq> 200"
  shows "(httpMethod event = Some ''GET'' \<and>
          statusCode (fst (monolithic_handler e mongoUri event)) = 405) \<or>
         (\<exists>err. monolithic_resolve_uri e mongoUri = Inl err \<and>
          statusCode (fst (monolithic_handler e mongoUri event)) = 500)"
proof (cases "httpMethod event = Some ''GET''")
  case True
  then show ?thesis using monolithic_handler_rejected by blast
next
  case False
  show ?thesis
  proof (cases "monolithic_resolve_uri e mongoUri")
    case (Inl err)
    then show ?thesis using False monolithic_handler_error by blast
  next
    case (Inr uri)
    have "statusCode (fst (monolithic_handler e mongoUri event)) = 200"
      by (rule monolithic_settle_all(1) [OF False Inr refl refl refl refl refl refl])
    with assms show ?thesis by blast
  qed
qed

lemma getConfig_allowed: "getConfig e = Inr c \<Longrightarrow> allowedMethods c = [''POST'', ''PUT'', ''PATCH'', ''DELETE'']"
  by (auto simp: getConfig_def split: if_splits)

lemma handler_passes_gate:
  assumes cfg: "getConfig e = Inr c"
    and m: "httpMethod event = Some m" and allowed: "m \<in> set (allowedMethods c)"
  shows "handler e mongoUri event = Inr (processWebhook e mongoUri event)"
proof -
  have "m \<noteq> ''GET''" using allowed getConfig_allowed [OF cfg] by auto
  then show ?thesis using cfg m allowed by (simp add: handler_def validateMethod_def)
qed

lemma handler_rejects:
  assumes cfg: "getConfig e = Inr c"
    and not_allowed: "\<forall>m. httpMethod event = Some m \<longrightarrow> m \<notin> set (allowedMethods c)"
  shows "\<exists>err. handler e mongoUri event = Inr (method_not_allowed err event, mongoUri)"
proof (cases "httpMethod event")
  case None
  then have "handler e mongoUri event =
      Inr (method_not_allowed ''undefined requests are not supported'' event, mongoUri)"
    using cfg by (simp add: handler_def validateMethod_def)
  then show ?thesis by blast
next
  case (Some a)
  then have na: "a \<notin> set (allowedMethods c)" using not_allowed by blast
  show ?thesis
  proof (cases "a = ''GET''")
    case True
    then have "handler e mongoUri event =
      Inr (method_not_allowed ''GET requests are not supported by this webhook endpoint'' event,
           mongoUri)"
      using Some by (simp add: handler_def)
    then show ?thesis by blast
  next
    case False
    then have "handler e mongoUri event =
      Inr (method_not_allowed (a @ '' requests are not supported'') event, mongoUri)"
      using Some cfg na by (simp add: handler_def validateMethod_def)
    then show ?thesis by blast
  qed
qed

lemma modular_settle_all:
  assumes cfg: "getConfig e = Inr c"
    and m: "httpMethod event = Some m" and allowed: "m \<in> set (allowedMethods c)"
    and uri: "(if \<not> truthy mongoUri then ssm_getParameter e (mongodbUriParameter c)
               else Inr (the mongoUri)) = Inr uri"
    and ed: "ed = extractEventData e event"
    and publish: "publish_ok = (\<not> isSNSConfigured c \<or>
                   (\<exists>u. snsClient_send e (the (snsTopicArn c)) ed = Inr u))"
  shows "\<exists>r. handler e mongoUri event = Inr (r, Some uri) \<and> statusCode r = 200 \<and>
           operations_status r =
             [(''mongodb'', ''success''), (''sns'', if publish_ok then ''success'' else ''failed'')]"
proof -
  let ?coll = "generateCollectionName (path (transport ed))"
  let ?m = "Some (storeWebhook (getDatabaseName c) ?coll ed)"
  let ?s = "if isSNSConfigured c then Some (snsOperation e (the (snsTopicArn c)) ed) else None"
  let ?r = "compose_response ?m ?s (getDatabaseName c) ?coll event"
  have h: "handler e mongoUri event = Inr (?r, Some uri)"
    unfolding handler_passes_gate [OF cfg m allowed] processWebhook_dispatch [OF cfg uri] ed ..
  have ms: "(case ?m of None \<Rightarrow> False | Some x \<Rightarrow> success x) = True"
    by (simp add: storeWebhook_success)
  have s: "(case ?s of None \<Rightarrow> True | Some x \<Rightarrow> success x) = publish_ok"
    by (simp add: snsOperation_success publish)
  have "operations_status ?r =
          [(''mongodb'', ''success''), (''sns'', if publish_ok then ''success'' else ''failed'')]"
    unfolding compose_response_operations ms s by simp
  with h compose_response_status [of ?m ?s "getDatabaseName c" ?coll event] show ?thesis
    by blast
qed

lemma modular_non_200:
  assumes h: "handler e mongoUri event = Inr (r, st)" and non: "statusCode r \<noteq> 200"
  shows "(statusCode r = 405 \<and>
          (\<forall>m. httpMethod event = Some m \<longrightarrow> m \<notin> set [''POST'', ''PUT'', ''PATCH'', ''DELETE''])) \<or>
         (statusCode r = 500 \<and>
          (\<exists>c err. getConfig e = Inr c \<and>
             (if \<not> truthy mongoUri then ssm_getParameter e (mongodbUriParameter c)
              else Inr (the mongoUri)) = Inl err))"
proof (cases "httpMethod event = Some ''GET''")
  case True
  then have "r = method_not_allowed ''GET requests are not supported by this webhook endpoint'' event"
    using h by (simp add: handler_def)
  then have "statusCode r = 405" by (simp add: method_not_allowed_def)
  moreover have "\<forall>m. httpMethod event = Some m \<longrightarrow> m \<notin> set [''POST'', ''PUT'', ''PATCH'', ''DELETE'']"
    using True by simp
  ultimately show ?thesis by blast
next
  case False
  show ?thesis
  proof (cases "getConfig e")
    case (Inl err)
    then have "handler e mongoUri event = Inl err"
      using False by (simp add: handler_def validateMethod_def)
    with h show ?thesis by simp
  next
    case (Inr c)
    note al = getConfig_allowed [OF Inr]
    show ?thesis
    proof (cases "\<exists>m. httpMethod event = Some m \<and> m \<in> set (allowedMethods c)")
      case True
      then obtain m where m: "httpMethod event = Some m" "m \<in> set (allowedMethods c)" by blast
      have "handler e mongoUri event = Inr (processWebhook e mongoUri event)"
        by (rule handler_passes_gate [OF Inr m])
      with h have r: "r = fst (processWebhook e mongoUri event)" by simp
      show ?thesis
      proof (cases "if \<not> truthy mongoUri then ssm_getParameter e (mongodbUriParameter c)
              else Inr (the mongoUri)")
        case (Inl err)
        then have "statusCode r = 500" unfolding r using processWebhook_error [OF Inr] by blast
        with Inr Inl show ?thesis by blast
      next
        case uri: (Inr uri)
        have "statusCode r = 200" unfolding r processWebhook_dispatch [OF Inr uri]
          by (simp add: compose_response_status)
        with non show ?thesis by blast
      qed
    next
      case no: False
      then have na: "\<forall>m. httpMethod event = Some m \<longrightarrow> m \<notin> set (allowedMethods c)" by blast
      obtain err where "handler e mongoUri event = Inr (method_not_allowed err event, mongoUri)"
        using handler_rejects [OF Inr na] by blast
      with h have "r = method_not_allowed err event" by simp
      then have "statusCode r = 405" by (simp add: method_not_allowed_def)
      with na show ?thesis unfolding al by blast
    qed
  qed
qed

lemma example_env_fields:
  "SNS_TOPIC_ARN (example_env t s p) = t"
  "(\<exists>u. mongo_storeWebhookEvent (example_env t s p) uri db coll ed = Inr u) = s"
  "(\<exists>u. snsClient_send (example_env t s p) arn ed = Inr u) = p"
  "monolithic_resolve_uri (example_env t s p) None = Inr ''mongodb://db.example.com''"
  "getConfig (example_env t s p) =
     Inr \<lparr>snsTopicArn = t, mongodbUriParameter = ''/webhook/receiver/prod/mongodb-uri'',
          allowedMethods = [''POST'', ''PUT'', ''PATCH'', ''DELETE''],
          environment = detectEnvironment (Some ''webhook-receiver-prod'')\<rparr>"
  "ssm_getParameter (example_env t s p) name = Inr ''mongodb://db.example.com''"
  "(mongo_storeWebhookEvent (example_env t s p) uri db coll ed = Inr ()) = s"
  "(snsClient_send (example_env t s p) arn ed = Inr ()) = p"
  by (simp_all add: example_env_def monolithic_resolve_uri_def getConfig_def truthy_def)

lemma example_request_method:
  "httpMethod example_request = Some ''POST''" "httpMethod example_request \<noteq> Some ''GET''"
  "httpMethod untraced_request = Some ''POST''" "httpMethod untraced_request \<noteq> Some ''GET''"
  by (simp_all add: example_request_def untraced_request_def)

lemma example_request_trace:
  "header_or (headers (transport (extractEventData e example_request)))
     ''x-datadog-trace-id'' ''X-Datadog-Trace-Id'' = Some ''7001''"
  "header_or (headers (transport (extractEventData e untraced_request)))
     ''x-datadog-trace-id'' ''X-Datadog-Trace-Id'' = None"
  by (simp_all add: extractEventData_def example_request_def untraced_request_def
        header_or_def truthy_def Let_def)

text \<open>
  Claim C1. In both handlers, a request that passes the method gate and whose connection
  secret resolves is answered with status 200 whatever the two branches did, and
  \<open>operations_status\<close> names each branch \<open>success\<close> or \<open>failed\<close> as it went; the fan-out
  counts as a success when no topic is configured; the message after two failures is not
  the message after two successes. A response other than 200 is the 405 of the method
  gate or the 500 of an exception before the dispatch (the secret resolution). In the
  monolithic handler the fan-out branch went well when the request carries a trace id
  header and the topic accepts the command: without the header the publish function
  throws before it sends anything, and the branch is reported \<open>failed\<close>, still under
  status 200. In the modular handler the store branch is the placeholder, which always
  succeeds.
\<close>

theorem dispatcher_settle_all:
  assumes "ed = extractEventData e event"
    and "db = generateDatabaseName (detectEnvironment (functionName event))"
    and "coll = generateCollectionName (path (transport ed))"
    and "store_ok = (\<exists>u. mongo_storeWebhookEvent e uri db coll ed = Inr u)"
    and "publish_ok = (\<not> truthy (SNS_TOPIC_ARN e) \<or>
           (truthy (header_or (headers (transport ed))
                      ''x-datadog-trace-id'' ''X-Datadog-Trace-Id'') \<and>
            (\<exists>u. snsClient_send e (the (SNS_TOPIC_ARN e)) ed = Inr u)))"
    and "r = fst (monolithic_handler e mongoUri event)"
  shows
   "(httpMethod event \<noteq> Some ''GET'' \<and> monolithic_resolve_uri e mongoUri = Inr uri \<longrightarrow>
       statusCode r = 200 \<and>
       operations_status r =
         [(''mongodb'', if store_ok then ''success'' else ''failed''),
          (''sns'', if publish_ok then ''success'' else ''failed'')] \<and>
       (store_ok \<and> publish_ok \<longrightarrow>
          message r = ''Webhook received, logged, stored, and published successfully'') \<and>
       (\<not> store_ok \<and> \<not> publish_ok \<longrightarrow>
          message r = ''Webhook received and logged successfully. Both MongoDB storage and SNS publishing failed.'' \<and>
          message r \<noteq> ''Webhook received, logged, stored, and published successfully'')) \<and>
    (statusCode r \<noteq> 200 \<longrightarrow>
       (httpMethod event = Some ''GET'' \<and> statusCode r = 405) \<or>
       (\<exists>err. monolithic_resolve_uri e mongoUri = Inl err \<and> statusCode r = 500)) \<and>
    (\<forall>c m uri'. getConfig e = Inr c \<and> httpMethod event = Some m \<and> m \<in> set (allowedMethods c) \<and>
       (if \<not> truthy mongoUri then ssm_getParameter e (mongodbUriParameter c)
        else Inr (the mongoUri)) = Inr uri' \<longrightarrow>
       (\<exists>r'. handler e mongoUri event = Inr (r', Some uri') \<and> statusCode r' = 200 \<and>
          operations_status r' =
            [(''mongodb'', ''success''),
             (''sns'', if \<not> isSNSConfigured c \<or>
                         (\<exists>u. snsClient_send e (the (snsTopicArn c)) ed = Inr u)
                      then ''success'' else ''failed'')])) \<and>
    (\<forall>r' st. handler e mongoUri event = Inr (r', st) \<and> statusCode r' \<noteq> 200 \<longrightarrow>
       (statusCode r' = 405 \<and>
        (\<forall>m. httpMethod event = Some m \<longrightarrow> m \<notin> set [''POST'', ''PUT'', ''PATCH'', ''DELETE''])) \<or>
       (statusCode r' = 500 \<and>
        (\<exists>c err. getConfig e = Inr c \<and>
           (if \<not> truthy mongoUri then ssm_getParameter e (mongodbUriParameter c)
            else Inr (the mongoUri)) = Inl err)))"
proof (intro conjI allI impI)
  assume a: "httpMethod event \<noteq> Some ''GET'' \<and> monolithic_resolve_uri e mongoUri = Inr uri"
  note facts = monolithic_settle_all [OF conjunct1 [OF a] conjunct2 [OF a] assms]
  show "statusCode r = 200" by (rule facts(1))
  show "operations_status r =
         [(''mongodb'', if store_ok then ''success'' else ''failed''),
          (''sns'', if publish_ok then ''success'' else ''failed'')]" by (rule facts(2))
  {
    assume "store_ok \<and> publish_ok"
    then show "message r = ''Webhook received, logged, stored, and published successfully''"
      using facts(3) by simp
  }
  {
    assume b: "\<not> store_ok \<and> \<not> publish_ok"
    then show "message r = ''Webhook received and logged successfully. Both MongoDB storage and SNS publishing failed.''"
      using facts(3) by simp
    from b show "message r \<noteq> ''Webhook received, logged, stored, and published successfully''"
      using facts(3) by simp
  }
next
  assume "statusCode r \<noteq> 200"
  then show "(httpMethod event = Some ''GET'' \<and> statusCode r = 405) \<or>
       (\<exists>err. monolithic_resolve_uri e mongoUri = Inl err \<and> statusCode r = 500)"
    unfolding assms(6) by (rule monolithic_non_200)
next
  fix c m uri'
  assume a: "getConfig e = Inr c \<and> httpMethod event = Some m \<and> m \<in> set (allowedMethods c) \<and>
       (if \<not> truthy mongoUri then ssm_getParameter e (mongodbUriParameter c)
        else Inr (the mongoUri)) = Inr uri'"
  then have a1: "getConfig e = Inr c" and a2: "httpMethod event = Some m"
    and a3: "m \<in> set (allowedMethods c)"
    and a4: "(if \<not> truthy mongoUri then ssm_getParameter e (mongodbUriParameter c)
        else Inr (the mongoUri)) = Inr uri'" by blast+
  show "\<exists>r'. handler e mongoUri event = Inr (r', Some uri') \<and> statusCode r' = 200 \<and>
          operations_status r' =
            [(''mongodb'', ''success''),
             (''sns'', if \<not> isSNSConfigured c \<or>
                         (\<exists>u. snsClient_send e (the (snsTopicArn c)) ed = Inr u)
                      then ''success'' else ''failed'')]"
    by (rule modular_settle_all [OF a1 a2 a3 a4 assms(1) refl])
next
  fix r' st
  assume "handler e mongoUri event = Inr (r', st) \<and> statusCode r' \<noteq> 200"
  then show "(statusCode r' = 405 \<and>
        (\<forall>m. httpMethod event = Some m \<longrightarrow> m \<notin> set [''POST'', ''PUT'', ''PATCH'', ''DELETE''])) \<or>
       (statusCode r' = 500 \<and>
        (\<exists>c err. getConfig e = Inr c \<and>
           (if \<not> truthy mongoUri then ssm_getParameter e (mongodbUriParameter c)
            else Inr (the mongoUri)) = Inl err))"
    using modular_non_200 by blast
qed

text \<open>
  The theorem at the concrete request, in the monolithic handler for the three
  combinations with a failure, for an unconfigured topic and for the request without a
  trace header sent to a topic that accepts, and in the modular handler for a refused
  publish.
\<close>

theorem dispatcher_settle_all_witness:
  "statusCode (fst (monolithic_handler (example_env (Some ''arn:aws:sns:eu:1:hooks'') True False) None example_request)) = 200 \<and>
   operations_status (fst (monolithic_handler (example_env (Some ''arn:aws:sns:eu:1:hooks'') True False) None example_request)) =
     [(''mongodb'', ''success''), (''sns'', ''failed'')] \<and>
   statusCode (fst (monolithic_handler (example_env (Some ''arn:aws:sns:eu:1:hooks'') False True) None example_request)) = 200 \<and>
   operations_status (fst (monolithic_handler (example_env (Some ''arn:aws:sns:eu:1:hooks'') False True) None example_request)) =
     [(''mongodb'', ''failed''), (''sns'', ''success'')] \<and>
   statusCode (fst (monolithic_handler (example_env (Some ''arn:aws:sns:eu:1:hooks'') False False) None example_request)) = 200 \<and>
   message (fst (monolithic_handler (example_env (Some ''arn:aws:sns:eu:1:hooks'') False False) None example_request)) =
     ''Webhook received and logged successfully. Both MongoDB storage and SNS publishing failed.'' \<and>
   operations_status (fst (monolithic_handler (example_env None True False) None example_request)) =
     [(''mongodb'', ''success''), (''sns'', ''success'')] \<and>
   statusCode (fst (monolithic_handler (example_env (Some ''arn:aws:sns:eu:1:hooks'') True True) None untraced_request)) = 200 \<and>
   operations_status (fst (monolithic_handler (example_env (Some ''arn:aws:sns:eu:1:hooks'') True True) None untraced_request)) =
     [(''mongodb'', ''success''), (''sns'', ''failed'')] \<and>
   (\<exists>r'. handler (example_env (Some ''arn:aws:sns:eu:1:hooks'') False False) None example_request =
            Inr (r', Some ''mongodb://db.example.com'') \<and>
         statusCode r' = 200 \<and>
         operations_status r' = [(''mongodb'', ''success''), (''sns'', ''failed'')])"
proof -
  note ex = example_env_fields example_request_method example_request_trace truthy_def
  note u = dispatcher_settle_all [OF refl refl refl refl refl refl,
      where event = untraced_request and mongoUri = None and uri = "''mongodb://db.example.com''"]
  have n: "statusCode (fst (monolithic_handler (example_env (Some ''arn:aws:sns:eu:1:hooks'') True True) None untraced_request)) = 200 \<and>
   operations_status (fst (monolithic_handler (example_env (Some ''arn:aws:sns:eu:1:hooks'') True True) None untraced_request)) =
     [(''mongodb'', ''success''), (''sns'', ''failed'')]"
    using u [where e = "example_env (Some ''arn:aws:sns:eu:1:hooks'') True True", THEN conjunct1]
    by (simp add: ex)
  note t = dispatcher_settle_all [OF refl refl refl refl refl refl,
      where event = example_request and mongoUri = None and uri = "''mongodb://db.example.com''"]
  have a: "statusCode (fst (monolithic_handler (example_env (Some ''arn:aws:sns:eu:1:hooks'') True False) None example_request)) = 200 \<and>
   operations_status (fst (monolithic_handler (example_env (Some ''arn:aws:sns:eu:1:hooks'') True False) None example_request)) =
     [(''mongodb'', ''success''), (''sns'', ''failed'')]"
    using t [where e = "example_env (Some ''arn:aws:sns:eu:1:hooks'') True False", THEN conjunct1]
    by (simp add: ex)
  have b: "statusCode (fst (monolithic_handler (example_env (Some ''arn:aws:sns:eu:1:hooks'') False True) None example_request)) = 200 \<and>
   operations_status (fst (monolithic_handler (example_env (Some ''arn:aws:sns:eu:1:hooks'') False True) None example_request)) =
     [(''mongodb'', ''failed''), (''sns'', ''success'')]"
    using t [where e = "example_env (Some ''arn:aws:sns:eu:1:hooks'') False True", THEN conjunct1]
    by (simp add: ex)
  have c: "statusCode (fst (monolithic_handler (example_env (Some ''arn:aws:sns:eu:1:hooks'') False False) None example_request)) = 200 \<and>
   message (fst (monolithic_handler (example_env (Some ''arn:aws:sns:eu:1:hooks'') False False) None example_request)) =
     ''Webhook received and logged successfully. Both MongoDB storage and SNS publishing failed.''"
    using t [where e = "example_env (Some ''arn:aws:sns:eu:1:hooks'') False False", THEN conjunct1]
    by (simp add: ex)
  have d: "operations_status (fst (monolithic_handler (example_env None True False) None example_request)) =
     [(''mongodb'', ''success''), (''sns'', ''success'')]"
    using t [where e = "example_env None True False", THEN conjunct1]
    by (simp add: ex)
  let ?e = "example_env (Some ''arn:aws:sns:eu:1:hooks'') False False"
  let ?c = "\<lparr>snsTopicArn = Some ''arn:aws:sns:eu:1:hooks'',
          mongodbUriParameter = ''/webhook/receiver/prod/mongodb-uri'',
          allowedMethods = [''POST'', ''PUT'', ''PATCH'', ''DELETE''],
          environment = detectEnvironment (Some ''webhook-receiver-prod'')\<rparr>"
  have hyp: "getConfig ?e = Inr ?c \<and> httpMethod example_request = Some ''POST'' \<and>
      ''POST'' \<in> set (allowedMethods ?c) \<and>
      (if \<not> truthy None then ssm_getParameter ?e (mongodbUriParameter ?c)
       else Inr (the None)) = Inr ''mongodb://db.example.com''"
    by (simp add: ex)
  have "\<exists>r'. handler ?e None example_request = Inr (r', Some ''mongodb://db.example.com'') \<and>
         statusCode r' = 200 \<and>
         operations_status r' =
            [(''mongodb'', ''success''),
             (''sns'', if \<not> isSNSConfigured ?c \<or>
                         (\<exists>u. snsClient_send ?e (the (snsTopicArn ?c))
                                (extractEventData ?e example_request) = Inr u)
                      then ''success'' else ''failed'')]"
    using t [where e = ?e, THEN conjunct2, THEN conjunct2, THEN conjunct1] hyp by blast
  then have m: "\<exists>r'. handler ?e None example_request =
            Inr (r', Some ''mongodb://db.example.com'') \<and>
         statusCode r' = 200 \<and>
         operations_status r' = [(''mongodb'', ''success''), (''sns'', ''failed'')]"
    by (simp add: ex isSNSConfigured_def)
  from a b c d n m show ?thesis by blast
qed

section \<open>Retry eligibility\<close>

lemma example_dlq_facts:
  "parse_event (example_dlq_env p d) (example_record reason n sent) = Inr example_event"
  "Date_now (example_dlq_env p d) = 1700000060000"
  "TopicArn (example_record reason n sent) = Some ''arn:aws:sns:eu:1:hooks''"
  "SentTimestamp (example_record reason n sent) = sent"
  "ApproximateReceiveCount (example_record reason n sent) = Some n"
  "record_messageId (example_record reason n sent) = ''m-1''"
  "reason \<noteq> [] \<Longrightarrow> failureReason (extract_failure_info (example_record reason n sent)) = reason"
  by (simp_all add: parse_event_def example_dlq_env_def example_record_def get_prop_def
      js_truthy_def extract_failure_info_def truthy_def)

lemma example_parseInt:
  "parseInt (Some ''1700000000000'') = Num (of_int 1700000000000)"
  "parseInt (Some ''1699800000000'') = Num (of_int 1699800000000)"
  "parseInt (Some ''soon'') = NaN"
  by code_simp+

lemma example_analysis:
  "analyzeFailure 1700000060000
     (extract_failure_info (example_record ''Connection timeout'' n (Some ''1700000000000'')))
     example_event =
   Inr \<lparr>shouldRetry = True, isCritical = False, failureType = ''timeout'',
        recommendations = [''Consider increasing timeout for subscriber'']\<rparr>"
  "analyzeFailure 1700000060000
     (extract_failure_info (example_record ''Connection timeout'' n (Some ''1699800000000'')))
     example_event =
   Inr \<lparr>shouldRetry = False, isCritical = False, failureType = ''timeout'',
        recommendations = [''Consider increasing timeout for subscriber'',
                           ''Message too old for retry'']\<rparr>"
  "analyzeFailure 1700000060000
     (extract_failure_info (example_record ''Connection timeout'' n None))
     example_event =
   Inr \<lparr>shouldRetry = True, isCritical = False, failureType = ''timeout'',
        recommendations = [''Consider increasing timeout for subscriber'']\<rparr>"
proof -
  have r: "failureReason (extract_failure_info (example_record ''Connection timeout'' n s)) =
      ''Connection timeout''"
    "sentTimestamp (extract_failure_info (example_record ''Connection timeout'' n s)) = s" for s
    by (simp_all add: extract_failure_info_def example_record_def truthy_def)
  have c: "classify ''Connection timeout'' =
      \<lparr>shouldRetry = True, isCritical = False, failureType = ''timeout'',
       recommendations = [''Consider increasing timeout for subscriber'']\<rparr>"
    by code_simp
  have p: "path_is_critical example_event = Inr False" by code_simp
  have n: "parseInt None = NaN" by (simp add: parseInt_def)
  show "analyzeFailure 1700000060000
     (extract_failure_info (example_record ''Connection timeout'' n (Some ''1700000000000'')))
     example_event =
   Inr \<lparr>shouldRetry = True, isCritical = False, failureType = ''timeout'',
        recommendations = [''Consider increasing timeout for subscriber'']\<rparr>"
    by (simp add: analyzeFailure_def Let_def r c p example_parseInt js_sub_def js_div_def js_gt_def)
  show "analyzeFailure 1700000060000
     (extract_failure_info (example_record ''Connection timeout'' n (Some ''1699800000000'')))
     example_event =
   Inr \<lparr>shouldRetry = False, isCritical = False, failureType = ''timeout'',
        recommendations = [''Consider increasing timeout for subscriber'',
                           ''Message too old for retry'']\<rparr>"
    by (simp add: analyzeFailure_def Let_def r c p example_parseInt js_sub_def js_div_def js_gt_def)
  show "analyzeFailure 1700000060000
     (extract_failure_info (example_record ''Connection timeout'' n None))
     example_event =
   Inr \<lparr>shouldRetry = True, isCritical = False, failureType = ''timeout'',
        recommendations = [''Consider increasing timeout for subscriber'']\<rparr>"
    by (simp add: analyzeFailure_def Let_def r c p n js_sub_def js_div_def js_gt_def)
qed





section \<open>Properties of the partition namer\<close>

lemma trim_subset: "set (rev (dropWhile P (rev (dropWhile P s)))) \<subseteq> set s"
proof
  fix c assume "c \<in> set (rev (dropWhile P (rev (dropWhile P s))))"
  then have "c \<in> set (dropWhile P (rev (dropWhile P s)))" by (simp only: set_rev)
  then have "c \<in> set (rev (dropWhile P s))" by (rule set_dropWhileD)
  then have "c \<in> set (dropWhile P s)" by (simp only: set_rev)
  then show "c \<in> set s" by (rule set_dropWhileD)
qed

lemma trim_last:
  assumes "rev (dropWhile P (rev (dropWhile P s))) \<noteq> []"
  shows "\<not> P (last (rev (dropWhile P (rev (dropWhile P s)))))"
proof -
  let ?d = "dropWhile P (rev (dropWhile P s))"
  from assms have ne: "?d \<noteq> []" by (simp only: rev_is_Nil_conv not_False_eq_True)
  have h: "\<not> P (hd ?d)" by (rule hd_dropWhile [OF ne])
  have l: "last (rev ?d) = hd ?d" by (rule last_rev)
  show ?thesis unfolding l by (rule h)
qed

lemma trim_prefix: "\<exists>r. t = rev (dropWhile Q (rev t)) @ r"
proof -
  have "rev t = takeWhile Q (rev t) @ dropWhile Q (rev t)" by (simp only: takeWhile_dropWhile_id)
  then have "rev (rev t) = rev (takeWhile Q (rev t) @ dropWhile Q (rev t))" by (rule arg_cong)
  then have "t = rev (dropWhile Q (rev t)) @ rev (takeWhile Q (rev t))"
    by (simp only: rev_append rev_rev_ident)
  then show ?thesis by (rule exI)
qed

lemma trim_hd:
  assumes ne: "rev (dropWhile P (rev (dropWhile P s))) \<noteq> []"
  shows "\<not> P (hd (rev (dropWhile P (rev (dropWhile P s)))))"
proof -
  let ?t = "dropWhile P s"
  let ?x = "rev (dropWhile P (rev ?t))"
  obtain r where zs: "?t = ?x @ r" using trim_prefix [of ?t P] by (rule exE)
  have tne: "?t \<noteq> []"
  proof
    assume e: "?t = []"
    have "?x = []" by (simp add: e)
    with ne show False by (rule notE)
  qed
  have a: "\<not> P (hd ?t)" by (rule hd_dropWhile [OF tne])
  have "hd (?x @ r) = hd ?x" by (rule hd_append2 [OF ne])
  with zs have "hd ?t = hd ?x" by (rule ssubst)
  with a show ?thesis by (rule subst [where P = "\<lambda>h. \<not> P h", rotated])
qed

lemma dropWhile_all: "(\<forall>x \<in> set (dropWhile P s). P x) \<longleftrightarrow> (\<forall>x \<in> set s. P x)"
proof (induction s)
  case Nil show ?case by simp
next
  case (Cons a s) show ?case using Cons by (cases "P a") simp_all
qed

lemma trim_empty: "rev (dropWhile P (rev (dropWhile P s))) = [] \<longleftrightarrow> (\<forall>c \<in> set s. P c)"
proof -
  have "rev (dropWhile P (rev (dropWhile P s))) = [] \<longleftrightarrow> dropWhile P (rev (dropWhile P s)) = []"
    by (rule rev_is_Nil_conv)
  also have "\<dots> \<longleftrightarrow> (\<forall>x \<in> set (rev (dropWhile P s)). P x)" by (rule dropWhile_eq_Nil_conv)
  also have "\<dots> \<longleftrightarrow> (\<forall>x \<in> set (dropWhile P s). P x)" by (simp only: set_rev)
  also have "\<dots> \<longleftrightarrow> (\<forall>x \<in> set s. P x)" by (rule dropWhile_all)
  finally show ?thesis .
qed

lemma replace_non_alnum_chars:
  "c \<in> set (replace_non_alnum s) \<Longrightarrow> is_alnum c \<or> c = CHR ''-''"
  by (auto simp: replace_non_alnum_def)

lemma strip_dashes_subset: "set (strip_dashes s) \<subseteq> set s"
  unfolding strip_dashes_def by (rule trim_subset)

lemma strip_dashes_last: "strip_dashes s \<noteq> [] \<Longrightarrow> last (strip_dashes s) \<noteq> CHR ''-''"
  unfolding strip_dashes_def by (rule trim_last)

lemma strip_dashes_hd: "strip_dashes s \<noteq> [] \<Longrightarrow> hd (strip_dashes s) \<noteq> CHR ''-''"
  unfolding strip_dashes_def by (rule trim_hd)

lemma strip_dashes_empty: "strip_dashes s = [] \<longleftrightarrow> (\<forall>c \<in> set s. c = CHR ''-'')"
  unfolding strip_dashes_def by (rule trim_empty)

lemma dash_not_alnum: "\<not> is_alnum CHR ''-''"
  by (simp add: is_alnum_def code_def)

lemma replace_char_dash:
  "(if is_alnum c then c else CHR ''-'') = CHR ''-'' \<longleftrightarrow> \<not> is_alnum c"
proof (cases "is_alnum c")
  case True
  have "c \<noteq> CHR ''-''"
  proof
    assume "c = CHR ''-''"
    with True have "is_alnum CHR ''-''" by (rule subst [rotated])
    with dash_not_alnum show False by (rule notE)
  qed
  with True show ?thesis by (simp only: if_True simp_thms)
next
  case False
  then show ?thesis by (simp only: if_False simp_thms)
qed

lemma normalised_empty:
  "strip_dashes (replace_non_alnum P) = [] \<longleftrightarrow> filter is_alnum P = []"
proof -
  have "(\<forall>c \<in> set (replace_non_alnum P). c = CHR ''-'') \<longleftrightarrow>
        (\<forall>c \<in> set P. (if is_alnum c then c else CHR ''-'') = CHR ''-'')"
    unfolding replace_non_alnum_def by (simp only: set_map ball_simps)
  also have "\<dots> \<longleftrightarrow> (\<forall>c \<in> set P. \<not> is_alnum c)"
    by (simp only: replace_char_dash)
  also have "\<dots> \<longleftrightarrow> filter is_alnum P = []"
    by (simp only: filter_empty_conv)
  finally show ?thesis unfolding strip_dashes_empty .
qed

text \<open>
  Claim C3 (partition namer), as the code has it. For every path \<open>P\<close> the name is
  non-empty, consists of characters of \<open>[A-Za-z0-9-]\<close> and neither starts nor ends with a
  dash. It is \<open>"root"\<close> exactly when \<open>P\<close> is empty or \<open>"/"\<close>, or when the path with every
  other character replaced by a dash and the outer dashes removed is itself \<open>"root"\<close>. It is
  \<open>"unknown"\<close> exactly when \<open>P\<close> is neither empty nor \<open>"/"\<close> and either has no alphanumeric
  character or normalises to \<open>"unknown"\<close> itself. The function is total on strings.
\<close>

theorem generateCollectionName_shape:
  "(\<forall>c \<in> set (generateCollectionName P). is_alnum c \<or> c = CHR ''-'') \<and>
   hd (generateCollectionName P) \<noteq> CHR ''-'' \<and>
   last (generateCollectionName P) \<noteq> CHR ''-'' \<and>
   generateCollectionName P \<noteq> [] \<and>
   (generateCollectionName P = ''root'' \<longleftrightarrow>
      P = [] \<or> P = ''/'' \<or> strip_dashes (replace_non_alnum P) = ''root'') \<and>
   (generateCollectionName P = ''unknown'' \<longleftrightarrow>
      P \<noteq> [] \<and> P \<noteq> ''/'' \<and>
      (filter is_alnum P = [] \<or> strip_dashes (replace_non_alnum P) = ''unknown''))"
proof -
  let ?n = "strip_dashes (replace_non_alnum P)"
  have chars: "\<forall>c \<in> set ?n. is_alnum c \<or> c = CHR ''-''"
    using strip_dashes_subset [of "replace_non_alnum P"] replace_non_alnum_chars by blast
  show ?thesis
  proof (cases "P = [] \<or> P = ''/''")
    case True
    then have g: "generateCollectionName P = ''root''"
      by (auto simp: generateCollectionName_def)
    have "\<forall>c \<in> set ''root''. is_alnum c \<or> c = CHR ''-''"
      by (simp add: is_alnum_def code_def)
    moreover have "hd ''root'' \<noteq> CHR ''-''" "last ''root'' \<noteq> CHR ''-''" "''root'' \<noteq> ''unknown''"
      by simp_all
    ultimately show ?thesis unfolding g using True by blast
  next
    case False
    show ?thesis
    proof (cases "?n = []")
      case True
      then have g: "generateCollectionName P = ''unknown''"
        using False by (simp add: generateCollectionName_def)
      have e: "filter is_alnum P = []" using True normalised_empty [of P] by simp
      have "\<forall>c \<in> set ''unknown''. is_alnum c \<or> c = CHR ''-''"
        by (simp add: is_alnum_def code_def)
      moreover have "hd ''unknown'' \<noteq> CHR ''-''" "last ''unknown'' \<noteq> CHR ''-''"
        "''unknown'' \<noteq> ''root''" "''unknown'' \<noteq> []" "?n \<noteq> ''root''"
        using True by simp_all
      ultimately show ?thesis unfolding g using False e by blast
    next
      case ne: False
      then have g: "generateCollectionName P = ?n"
        using False by (simp add: generateCollectionName_def Let_def)
      have e: "filter is_alnum P \<noteq> []" using ne normalised_empty [of P] by simp
      show ?thesis unfolding g
        using False ne chars strip_dashes_hd [OF ne] strip_dashes_last [OF ne] e
        by blast
    qed
  qed
qed

text \<open>The theorem at \<open>"/messages/telegram"\<close>, \<open>"/"\<close> and \<open>"/--/"\<close>.\<close>

theorem generateCollectionName_shape_witness:
  "generateCollectionName ''/messages/telegram'' = ''messages-telegram'' \<and>
   list_all (\<lambda>c. is_alnum c \<or> c = CHR ''-'') ''messages-telegram'' \<and>
   hd ''messages-telegram'' \<noteq> CHR ''-'' \<and> last ''messages-telegram'' \<noteq> CHR ''-'' \<and>
   generateCollectionName ''/'' = ''root'' \<and>
   generateCollectionName ''/--/'' = ''unknown''"
proof -
  have e: "generateCollectionName ''/messages/telegram'' = ''messages-telegram''"
    by code_simp
  have n: "filter is_alnum ''/--/'' = []" "''/--/'' \<noteq> []" "''/--/'' \<noteq> ''/''"
    by code_simp+
  have "(\<forall>c \<in> set (generateCollectionName ''/messages/telegram''). is_alnum c \<or> c = CHR ''-'') \<and>
     hd (generateCollectionName ''/messages/telegram'') \<noteq> CHR ''-'' \<and>
     last (generateCollectionName ''/messages/telegram'') \<noteq> CHR ''-''"
    using generateCollectionName_shape [of "''/messages/telegram''"] by blast
  then have a: "list_all (\<lambda>c. is_alnum c \<or> c = CHR ''-'') ''messages-telegram'' \<and>
     hd ''messages-telegram'' \<noteq> CHR ''-'' \<and> last ''messages-telegram'' \<noteq> CHR ''-''"
    unfolding e list_all_iff .
  have b: "generateCollectionName ''/'' = ''root''"
    using generateCollectionName_shape [of "''/''"] by blast
  have c: "generateCollectionName ''/--/'' = ''unknown''"
    using generateCollectionName_shape [of "''/--/''"] n by blast
  from e a b c show ?thesis by blast
qed

text \<open>
  The two equivalences of claim C3 as the specification words them fail: \<open>"/root"\<close> is neither
  empty nor \<open>"/"\<close> and is named \<open>"root"\<close>; \<open>"/unknown"\<close> has alphanumeric characters and is
  named \<open>"unknown"\<close>; \<open>"/"\<close> has no alphanumeric character and is named \<open>"root"\<close>.
\<close>

theorem generateCollectionName_iff_counterexample:
  "\<not> (generateCollectionName ''/root'' = ''root'' \<longleftrightarrow> (''/root'' = [] \<or> ''/root'' = ''/'')) \<and>
   \<not> (generateCollectionName ''/unknown'' = ''unknown'' \<longleftrightarrow> filter is_alnum ''/unknown'' = []) \<and>
   \<not> (generateCollectionName ''/'' = ''unknown'' \<longleftrightarrow> filter is_alnum ''/'' = [])"
  by code_simp

section \<open>Properties of the headers attribute\<close>

lemma truncation_suffix_length: "length truncation_suffix = 19"
  by (simp add: truncation_suffix_def)

lemma JSON_stringify_Nil: "JSON_stringify [] = ''{}''"
  by (simp add: JSON_stringify_def)

lemma truncated_length:
  assumes "20 \<le> maxSize" and "maxSize < int (length json)"
  shows "int (length (substring0 json (maxSize - 20) @ truncation_suffix)) = maxSize - 1"
proof -
  have "nat (maxSize - 20) \<le> length json" using assms by linarith
  then have "length (take (nat (maxSize - 20)) json) = nat (maxSize - 20)" by simp
  then have "length (substring0 json (maxSize - 20) @ truncation_suffix) = nat (maxSize - 20) + 19"
    by (simp add: substring0_def truncation_suffix_length)
  then show ?thesis using assms by linarith
qed

lemma long_json_nonempty:
  assumes "20 \<le> maxSize" and "maxSize < int (length (JSON_stringify hs))"
  shows "hs \<noteq> []"
proof
  assume "hs = []"
  then have "length (JSON_stringify hs) = 2" by (simp add: JSON_stringify_Nil)
  with assms show False by linarith
qed

text \<open>
  Claim C4 (headers attribute), as the code has it. For a size limit of at least 20 and a
  header object whose sanitised serialisation is longer than the limit, the result is the
  first \<open>maxSize - 20\<close> characters of the serialisation followed by the 19-character
  suffix \<open>,"_truncated":true}\<close>, of length exactly \<open>maxSize - 1\<close>. When the sanitised
  object has an entry and its serialisation is not longer than the limit, the
  serialisation is returned as it is. When the sanitised object has no entry (the header
  object has none, or only keys that sanitisation drops, such as \<open>headers\<close>), the result
  is \<open>null\<close> whatever the limit.
\<close>

theorem createHeadersAttribute_truncation:
  "(20 \<le> maxSize \<and> maxSize < int (length (JSON_stringify (sanitizeHeaders (Some hs)))) \<longrightarrow>
      (\<exists>r. createHeadersAttribute (Some hs) maxSize = Some r \<and>
           r = take (nat (maxSize - 20)) (JSON_stringify (sanitizeHeaders (Some hs))) @ truncation_suffix \<and>
           int (length r) = maxSize - 1)) \<and>
   (sanitizeHeaders (Some hs) \<noteq> [] \<and>
    int (length (JSON_stringify (sanitizeHeaders (Some hs)))) \<le> maxSize \<longrightarrow>
      createHeadersAttribute (Some hs) maxSize = Some (JSON_stringify (sanitizeHeaders (Some hs)))) \<and>
   (sanitizeHeaders (Some hs) = [] \<longrightarrow> createHeadersAttribute (Some hs) maxSize = None)"
proof (intro conjI impI)
  let ?json = "JSON_stringify (sanitizeHeaders (Some hs))"
  assume a: "20 \<le> maxSize \<and> maxSize < int (length ?json)"
  then have ne: "sanitizeHeaders (Some hs) \<noteq> []" using long_json_nonempty by blast
  have gt: "\<not> int (length ?json) \<le> maxSize" using a by linarith
  have "createHeadersAttribute (Some hs) maxSize = Some (substring0 ?json (maxSize - 20) @ truncation_suffix)"
    using ne gt by (simp add: createHeadersAttribute_def Let_def)
  moreover have "int (length (substring0 ?json (maxSize - 20) @ truncation_suffix)) = maxSize - 1"
    using a truncated_length by blast
  ultimately show "\<exists>r. createHeadersAttribute (Some hs) maxSize = Some r \<and>
           r = take (nat (maxSize - 20)) ?json @ truncation_suffix \<and> int (length r) = maxSize - 1"
    by (simp add: substring0_def)
next
  let ?json = "JSON_stringify (sanitizeHeaders (Some hs))"
  assume "sanitizeHeaders (Some hs) \<noteq> [] \<and> int (length ?json) \<le> maxSize"
  then show "createHeadersAttribute (Some hs) maxSize = Some ?json"
    by (simp add: createHeadersAttribute_def Let_def)
next
  assume "sanitizeHeaders (Some hs) = []"
  then show "createHeadersAttribute (Some hs) maxSize = None"
    by (simp add: createHeadersAttribute_def Let_def)
qed

text \<open>
  The theorem at the limit 1000 with one header \<open>a\<close> of 1000 characters (a serialisation of
  1008 characters, cut to 999), at the same limit with the header \<open>a: b\<close>, returned as
  it is, and with the two headers \<open>__proto__\<close> and \<open>HEADERS\<close>, both dropped by the
  sanitisation.
\<close>

theorem createHeadersAttribute_truncation_witness:
  "1000 < int (length (JSON_stringify (sanitizeHeaders (Some [(''a'', replicate 1000 CHR ''x'')])))) \<and>
   (\<exists>r. createHeadersAttribute (Some [(''a'', replicate 1000 CHR ''x'')]) 1000 = Some r \<and>
        int (length r) = 999 \<and>
        r = take 980 (JSON_stringify (sanitizeHeaders (Some [(''a'', replicate 1000 CHR ''x'')]))) @
            truncation_suffix) \<and>
   createHeadersAttribute (Some [(''a'', ''b'')]) 1000 =
     Some (JSON_stringify (sanitizeHeaders (Some [(''a'', ''b'')]))) \<and>
   createHeadersAttribute (Some [(''__proto__'', ''x''), (''HEADERS'', ''y'')]) 1000 = None"
proof -
  let ?hs = "[(''a'', replicate 1000 CHR ''x'')]"
  have x: "code CHR ''x'' = 120" by (simp add: code_def)
  have q: "quote_char CHR ''x'' = ''x''" by (simp add: quote_char_def x)
  have qa: "quote_char CHR ''a'' = ''a''" by (simp add: quote_char_def code_def)
  have s: "sanitizeHeaders (Some ?hs) = ?hs" by code_simp
  have "length (concat (map quote_char (replicate 1000 CHR ''x''))) = 1000"
    by (simp add: q length_concat sum_list_replicate)
  then have len: "length (JSON_stringify (sanitizeHeaders (Some ?hs))) = 1008"
    unfolding s by (simp add: JSON_stringify_def QuoteJSONString_def qa)
  have h: "(20::int) \<le> 1000 \<and> 1000 < int (length (JSON_stringify (sanitizeHeaders (Some ?hs))))"
    using len by simp
  have s2: "sanitizeHeaders (Some [(''a'', ''b'')]) \<noteq> [] \<and>
    int (length (JSON_stringify (sanitizeHeaders (Some [(''a'', ''b'')])))) \<le> 1000"
    by code_simp
  from createHeadersAttribute_truncation [of 1000 ?hs] h
  have a: "\<exists>r. createHeadersAttribute (Some ?hs) 1000 = Some r \<and>
           r = take (nat (1000 - 20)) (JSON_stringify (sanitizeHeaders (Some ?hs))) @ truncation_suffix \<and>
           int (length r) = 1000 - 1"
    by blast
  from createHeadersAttribute_truncation [of 1000 "[(''a'', ''b'')]"] s2
  have b: "createHeadersAttribute (Some [(''a'', ''b'')]) 1000 =
     Some (JSON_stringify (sanitizeHeaders (Some [(''a'', ''b'')])))"
    by blast
  from a have a': "\<exists>r. createHeadersAttribute (Some ?hs) 1000 = Some r \<and> int (length r) = 999 \<and>
        r = take 980 (JSON_stringify (sanitizeHeaders (Some ?hs))) @ truncation_suffix"
    by auto
  have s3: "sanitizeHeaders (Some [(''__proto__'', ''x''), (''HEADERS'', ''y'')]) = []"
    by code_simp
  from createHeadersAttribute_truncation [of 1000 "[(''__proto__'', ''x''), (''HEADERS'', ''y'')]"] s3
  have c: "createHeadersAttribute (Some [(''__proto__'', ''x''), (''HEADERS'', ''y'')]) 1000 = None"
    by blast
  from h a' b c show ?thesis by blast
qed

text \<open>
  Claim C4 as the specification words it fails in two places. With the limit 5 the header
  \<open>a: b\<close> serialises to 9 characters, longer than the limit, and the result is the bare
  19-character suffix: its length is neither \<open>maxSize - 1 = 4\<close> nor within the limit. With
  the limit 1000 the header object \<open>{"headers": "x"}\<close> is sanitised to an object with no
  entry, which serialises to \<open>{}\<close>, not longer than the limit, and the result is \<open>null\<close>,
  not the serialisation.
\<close>

theorem createHeadersAttribute_truncation_counterexample:
  "5 < int (length (JSON_stringify (sanitizeHeaders (Some [(''a'', ''b'')])))) \<and>
   createHeadersAttribute (Some [(''a'', ''b'')]) 5 = Some truncation_suffix \<and>
   int (length truncation_suffix) \<noteq> 5 - 1 \<and>
   JSON_stringify (sanitizeHeaders (Some [(''headers'', ''x'')])) = ''{}'' \<and>
   int (length (JSON_stringify (sanitizeHeaders (Some [(''headers'', ''x'')])))) \<le> 1000 \<and>
   createHeadersAttribute (Some [(''headers'', ''x'')]) 1000 = None"
  by code_simp

section \<open>The method gate\<close>

text \<open>
  The gate of the modular handler, under a valid configuration: a method of the allow-list
  goes on to \<open>processWebhook\<close>, and every other method, or none, is answered with the 405
  response that lists the four allowed methods.
\<close>

lemma modular_method_gate:
  assumes cfg: "getConfig e = Inr c"
  shows "(\<forall>m. httpMethod event = Some m \<and> m \<in> set [''POST'', ''PUT'', ''PATCH'', ''DELETE''] \<longrightarrow>
            handler e mongoUri event = Inr (processWebhook e mongoUri event)) \<and>
         ((\<forall>m. httpMethod event = Some m \<longrightarrow> m \<notin> set [''POST'', ''PUT'', ''PATCH'', ''DELETE'']) \<longrightarrow>
            (\<exists>err. handler e mongoUri event = Inr (method_not_allowed err event, mongoUri) \<and>
                   statusCode (method_not_allowed err event) = 405 \<and>
                   allowed_methods (method_not_allowed err event) =
                     Some [''POST'', ''PUT'', ''PATCH'', ''DELETE'']))"
proof (intro conjI allI impI)
  fix m
  assume "httpMethod event = Some m \<and> m \<in> set [''POST'', ''PUT'', ''PATCH'', ''DELETE'']"
  then have "httpMethod event = Some m" "m \<in> set (allowedMethods c)"
    unfolding getConfig_allowed [OF cfg] by blast+
  then show "handler e mongoUri event = Inr (processWebhook e mongoUri event)"
    by (rule handler_passes_gate [OF cfg])
next
  assume "\<forall>m. httpMethod event = Some m \<longrightarrow> m \<notin> set [''POST'', ''PUT'', ''PATCH'', ''DELETE'']"
  then have "\<forall>m. httpMethod event = Some m \<longrightarrow> m \<notin> set (allowedMethods c)"
    unfolding getConfig_allowed [OF cfg] .
  then obtain err where "handler e mongoUri event = Inr (method_not_allowed err event, mongoUri)"
    using handler_rejects [OF cfg] by blast
  moreover have "statusCode (method_not_allowed err event) = 405"
    "allowed_methods (method_not_allowed err event) = Some [''POST'', ''PUT'', ''PATCH'', ''DELETE'']"
    by (simp_all add: method_not_allowed_def)
  ultimately show "\<exists>err. handler e mongoUri event = Inr (method_not_allowed err event, mongoUri) \<and>
                   statusCode (method_not_allowed err event) = 405 \<and>
                   allowed_methods (method_not_allowed err event) =
                     Some [''POST'', ''PUT'', ''PATCH'', ''DELETE'']"
    by blast
qed

text \<open>A response of the exported handler that is not a 405 comes from \<open>processWebhook\<close>,
  for a method of the allow-list.\<close>

lemma modular_gate_only_allow_list:
  assumes h: "handler e mongoUri event = Inr (r, st)" and s: "statusCode r \<noteq> 405"
  shows "(\<exists>m. httpMethod event = Some m \<and> m \<in> set [''POST'', ''PUT'', ''PATCH'', ''DELETE'']) \<and>
         (r, st) = processWebhook e mongoUri event"
proof (cases "getConfig e")
  case (Inl err)
  have "httpMethod event = Some ''GET''"
  proof (rule ccontr)
    assume "httpMethod event \<noteq> Some ''GET''"
    then have "handler e mongoUri event = Inl err"
      using Inl by (simp add: handler_def validateMethod_def)
    with h show False by simp
  qed
  then have "r = method_not_allowed ''GET requests are not supported by this webhook endpoint'' event"
    using h by (simp add: handler_def)
  with s show ?thesis by (simp add: method_not_allowed_def)
next
  case cfg: (Inr c)
  show ?thesis
  proof (cases "\<exists>m. httpMethod event = Some m \<and> m \<in> set [''POST'', ''PUT'', ''PATCH'', ''DELETE'']")
    case True
    then have "handler e mongoUri event = Inr (processWebhook e mongoUri event)"
      using modular_method_gate [OF cfg] by blast
    with h True show ?thesis by simp
  next
    case False
    then obtain err where "handler e mongoUri event = Inr (method_not_allowed err event, mongoUri)"
      using modular_method_gate [OF cfg, of event mongoUri] by blast
    with h have "r = method_not_allowed err event" by simp
    with s show ?thesis by (simp add: method_not_allowed_def)
  qed
qed

lemma monolithic_gate:
  "httpMethod event \<noteq> Some ''GET'' \<Longrightarrow>
     statusCode (fst (monolithic_handler e mongoUri event)) = 200 \<or>
     statusCode (fst (monolithic_handler e mongoUri event)) = 500"
  using monolithic_non_200 [of e mongoUri event] by blast

text \<open>
  Claim C5, as the code has it. In the exported handler a \<open>GET\<close> is always answered with
  the 405 response. With a valid configuration, a method of the allow-list \<open>POST\<close>,
  \<open>PUT\<close>, \<open>PATCH\<close>, \<open>DELETE\<close> passes the gate and the answer is that of \<open>processWebhook\<close>
  (which normalises the request and answers 200 or 500, never 405), and every other
  method, or no method, is answered with the 405 response; every 405 response carries the
  same list of the four allowed methods. Only a method of the allow-list passes: a
  response that is not a 405 is the one \<open>processWebhook\<close> gave for such a method. When the
  configuration is not valid (the setting \<open>MONGODB_URI_PARAMETER\<close> is missing), the check
  of a method other than \<open>GET\<close> throws and the handler gives no response. The monolithic
  backup handler refuses \<open>GET\<close> alone, with the same 405 response: every other method
  passes its gate and is answered with 200 or 500.
\<close>

theorem method_gate_allow_list:
  "(httpMethod event = Some ''GET'' \<longrightarrow>
      handler e mongoUri event =
        Inr (method_not_allowed ''GET requests are not supported by this webhook endpoint'' event,
             mongoUri)) \<and>
   (\<forall>c. getConfig e = Inr c \<longrightarrow>
      (\<forall>m. httpMethod event = Some m \<and> m \<in> set [''POST'', ''PUT'', ''PATCH'', ''DELETE''] \<longrightarrow>
         handler e mongoUri event = Inr (processWebhook e mongoUri event)) \<and>
      ((\<forall>m. httpMethod event = Some m \<longrightarrow> m \<notin> set [''POST'', ''PUT'', ''PATCH'', ''DELETE'']) \<longrightarrow>
         (\<exists>err. handler e mongoUri event = Inr (method_not_allowed err event, mongoUri)))) \<and>
   (\<forall>err. statusCode (method_not_allowed err event) = 405 \<and>
      Allow (method_not_allowed err event) = Some ''POST, PUT, PATCH, DELETE'' \<and>
      allowed_methods (method_not_allowed err event) =
        Some [''POST'', ''PUT'', ''PATCH'', ''DELETE'']) \<and>
   (statusCode (fst (processWebhook e mongoUri event)) = 200 \<or>
    statusCode (fst (processWebhook e mongoUri event)) = 500) \<and>
   (\<forall>r st. handler e mongoUri event = Inr (r, st) \<and> statusCode r \<noteq> 405 \<longrightarrow>
      (\<exists>m. httpMethod event = Some m \<and> m \<in> set [''POST'', ''PUT'', ''PATCH'', ''DELETE'']) \<and>
      (r, st) = processWebhook e mongoUri event) \<and>
   (\<forall>err. getConfig e = Inl err \<and> httpMethod event \<noteq> Some ''GET'' \<longrightarrow>
      handler e mongoUri event = Inl err) \<and>
   (httpMethod event = Some ''GET'' \<longrightarrow>
      monolithic_handler e mongoUri event =
        (method_not_allowed ''GET requests are not supported by this webhook endpoint'' event,
         mongoUri)) \<and>
   (httpMethod event \<noteq> Some ''GET'' \<longrightarrow>
      statusCode (fst (monolithic_handler e mongoUri event)) = 200 \<or>
      statusCode (fst (monolithic_handler e mongoUri event)) = 500)"
proof -
  have c1: "httpMethod event = Some ''GET'' \<longrightarrow>
      handler e mongoUri event =
        Inr (method_not_allowed ''GET requests are not supported by this webhook endpoint'' event,
             mongoUri)"
    by (simp add: handler_def)
  have c2: "\<forall>c. getConfig e = Inr c \<longrightarrow>
      (\<forall>m. httpMethod event = Some m \<and> m \<in> set [''POST'', ''PUT'', ''PATCH'', ''DELETE''] \<longrightarrow>
         handler e mongoUri event = Inr (processWebhook e mongoUri event)) \<and>
      ((\<forall>m. httpMethod event = Some m \<longrightarrow> m \<notin> set [''POST'', ''PUT'', ''PATCH'', ''DELETE'']) \<longrightarrow>
         (\<exists>err. handler e mongoUri event = Inr (method_not_allowed err event, mongoUri)))"
  proof (intro allI impI)
    fix c
    assume cfg: "getConfig e = Inr c"
    show "(\<forall>m. httpMethod event = Some m \<and> m \<in> set [''POST'', ''PUT'', ''PATCH'', ''DELETE''] \<longrightarrow>
         handler e mongoUri event = Inr (processWebhook e mongoUri event)) \<and>
      ((\<forall>m. httpMethod event = Some m \<longrightarrow> m \<notin> set [''POST'', ''PUT'', ''PATCH'', ''DELETE'']) \<longrightarrow>
         (\<exists>err. handler e mongoUri event = Inr (method_not_allowed err event, mongoUri)))"
      using modular_method_gate [OF cfg, of event mongoUri] by blast
  qed
  have c3: "\<forall>err. statusCode (method_not_allowed err event) = 405 \<and>
      Allow (method_not_allowed err event) = Some ''POST, PUT, PATCH, DELETE'' \<and>
      allowed_methods (method_not_allowed err event) =
        Some [''POST'', ''PUT'', ''PATCH'', ''DELETE'']"
    by (simp add: method_not_allowed_def)
  have c4: "statusCode (fst (processWebhook e mongoUri event)) = 200 \<or>
    statusCode (fst (processWebhook e mongoUri event)) = 500"
    by (rule processWebhook_status)
  have c5: "\<forall>r st. handler e mongoUri event = Inr (r, st) \<and> statusCode r \<noteq> 405 \<longrightarrow>
      (\<exists>m. httpMethod event = Some m \<and> m \<in> set [''POST'', ''PUT'', ''PATCH'', ''DELETE'']) \<and>
      (r, st) = processWebhook e mongoUri event"
    using modular_gate_only_allow_list by blast
  have c6: "\<forall>err. getConfig e = Inl err \<and> httpMethod event \<noteq> Some ''GET'' \<longrightarrow>
      handler e mongoUri event = Inl err"
    by (simp add: handler_def validateMethod_def)
  have c7: "httpMethod event = Some ''GET'' \<longrightarrow>
      monolithic_handler e mongoUri event =
        (method_not_allowed ''GET requests are not supported by this webhook endpoint'' event,
         mongoUri)"
    by (simp add: monolithic_handler_def)
  have c8: "httpMethod event \<noteq> Some ''GET'' \<longrightarrow>
      statusCode (fst (monolithic_handler e mongoUri event)) = 200 \<or>
      statusCode (fst (monolithic_handler e mongoUri event)) = 500"
    using monolithic_gate by blast
  from c1 c2 c3 c4 c5 c6 c7 c8 show ?thesis by (intro conjI)
qed

text \<open>
  The theorem at the concrete request, under the valid configuration: sent as \<open>GET\<close> and
  as \<open>OPTIONS\<close> it is answered with the 405 response, sent as \<open>POST\<close> it is answered by
  \<open>processWebhook\<close> with 200; and without the setting, sent as \<open>POST\<close>, the handler
  throws.
\<close>

theorem method_gate_allow_list_witness:
  "handler (example_env None True True) None (example_request\<lparr>httpMethod := Some ''GET''\<rparr>) =
     Inr (method_not_allowed ''GET requests are not supported by this webhook endpoint''
            (example_request\<lparr>httpMethod := Some ''GET''\<rparr>), None) \<and>
   (\<exists>err. handler (example_env None True True) None options_request =
            Inr (method_not_allowed err options_request, None)) \<and>
   handler (example_env None True True) None example_request =
     Inr (processWebhook (example_env None True True) None example_request) \<and>
   statusCode (fst (processWebhook (example_env None True True) None example_request)) = 200 \<and>
   handler unconfigured_env None example_request =
     Inl ''Missing required configuration: MONGODB_URI_PARAMETER''"
proof -
  let ?e = "example_env None True True"
  let ?c = "\<lparr>snsTopicArn = None,
          mongodbUriParameter = ''/webhook/receiver/prod/mongodb-uri'',
          allowedMethods = [''POST'', ''PUT'', ''PATCH'', ''DELETE''],
          environment = detectEnvironment (Some ''webhook-receiver-prod'')\<rparr>"
  have cfg: "getConfig ?e = Inr ?c" by (rule example_env_fields(5))
  note t = method_gate_allow_list [where e = ?e and mongoUri = None]
  have a: "handler ?e None (example_request\<lparr>httpMethod := Some ''GET''\<rparr>) =
     Inr (method_not_allowed ''GET requests are not supported by this webhook endpoint''
            (example_request\<lparr>httpMethod := Some ''GET''\<rparr>), None)"
    using t [where event = "example_request\<lparr>httpMethod := Some ''GET''\<rparr>", THEN conjunct1]
    by simp
  have om: "\<forall>m. httpMethod options_request = Some m \<longrightarrow>
      m \<notin> set [''POST'', ''PUT'', ''PATCH'', ''DELETE'']"
    by (simp add: options_request_def)
  have b: "\<exists>err. handler ?e None options_request =
            Inr (method_not_allowed err options_request, None)"
    using t [where event = options_request, THEN conjunct2, THEN conjunct1] cfg om by blast
  have pm: "httpMethod example_request = Some ''POST'' \<and>
      ''POST'' \<in> set [''POST'', ''PUT'', ''PATCH'', ''DELETE'']"
    by (simp add: example_request_method)
  have c: "handler ?e None example_request = Inr (processWebhook ?e None example_request)"
    using t [where event = example_request, THEN conjunct2, THEN conjunct1] cfg pm by blast
  have uri: "(if \<not> truthy None then ssm_getParameter ?e (mongodbUriParameter ?c)
       else Inr (the None)) = Inr ''mongodb://db.example.com''"
    by (simp add: example_env_fields truthy_def)
  have d: "statusCode (fst (processWebhook ?e None example_request)) = 200"
    unfolding processWebhook_dispatch [OF cfg uri] by (simp add: compose_response_status)
  have uc: "getConfig unconfigured_env = Inl ''Missing required configuration: MONGODB_URI_PARAMETER'' \<and>
      httpMethod example_request \<noteq> Some ''GET''"
    by (simp add: getConfig_def unconfigured_env_def truthy_def example_request_method)
  have e: "handler unconfigured_env None example_request =
     Inl ''Missing required configuration: MONGODB_URI_PARAMETER''"
    using method_gate_allow_list [where e = unconfigured_env and mongoUri = None
        and event = example_request] uc by blast
  from a b c d e show ?thesis by blast
qed

text \<open>
  Claim C5 as the specification words it fails. In the exported handler without the
  setting \<open>MONGODB_URI_PARAMETER\<close>, an \<open>OPTIONS\<close> request, whose method is not in the
  allow-list, is not answered with 405: the check of the method throws and there is no
  response. In the monolithic backup handler, which the claim also names and whose gate
  refuses \<open>GET\<close> alone, the same request under a valid configuration is normalised,
  dispatched and answered with 200.
\<close>

theorem method_gate_counterexample:
  "''OPTIONS'' \<notin> set [''POST'', ''PUT'', ''PATCH'', ''DELETE''] \<and>
   httpMethod options_request = Some ''OPTIONS'' \<and>
   handler unconfigured_env None options_request =
     Inl ''Missing required configuration: MONGODB_URI_PARAMETER'' \<and>
   statusCode (fst (monolithic_handler (example_env None True True) None options_request)) = 200 \<and>
   method (transport (extractEventData (example_env None True True) options_request)) = ''OPTIONS''"
proof -
  let ?e = "example_env None True True"
  have g: "httpMethod options_request \<noteq> Some ''GET''" by (simp add: options_request_def)
  have "statusCode (fst (monolithic_handler ?e None options_request)) = 200"
    by (rule monolithic_settle_all(1) [OF g example_env_fields(4) refl refl refl refl refl refl])
  moreover have "method (transport (extractEventData ?e options_request)) = ''OPTIONS''"
    by (simp add: extractEventData_def Let_def options_request_def)
  moreover have "handler unconfigured_env None options_request =
     Inl ''Missing required configuration: MONGODB_URI_PARAMETER''"
    by (simp add: handler_def validateMethod_def getConfig_def unconfigured_env_def truthy_def
        options_request_def)
  moreover have "httpMethod options_request = Some ''OPTIONS''"
    by (simp add: options_request_def)
  ultimately show ?thesis by simp
qed

section \<open>The batch summary\<close>

lemma process_record_statuses:
  "\<forall>x \<in> set (fst (process_record w r)). status x = ''processed'' \<or> status x = ''failed''"
proof (cases "processDLQMessage w r")
  case (Pair effects outcome)
  show ?thesis
  proof (cases outcome)
    case (Inl t)
    then show ?thesis using Pair by (simp add: process_record_def failed_result_def)
  next
    case (Inr res)
    then have "status res = ''processed''" using Pair processDLQMessage_status [of w r res] by simp
    then show ?thesis using Pair Inr
      by (auto simp: process_record_def failed_result_def split: sum.splits)
  qed
qed

lemma filter_two_statuses:
  assumes "\<forall>x \<in> set xs. status x = ''processed'' \<or> status x = ''failed''"
  shows "length (filter (\<lambda>x. status x = ''processed'') xs) +
         length (filter (\<lambda>x. status x = ''failed'') xs) = length xs"
  using assms
proof (induction xs)
  case Nil
  then show ?case by simp
next
  case (Cons x xs)
  then have "status x = ''processed'' \<or> status x = ''failed''" by simp
  moreover have "(''processed'' :: string) \<noteq> ''failed''" by simp
  ultimately show ?case using Cons by auto
qed

text \<open>
  What holds of the summary for every batch: the two counts add up to the total. When no
  delete call rejects, there is one result per entry and the total is the size of the
  batch.
\<close>

lemma summary_counts_add_up:
  "processed (dlq_summary (fst (dlq_handler w (Some rs)))) +
   failed (dlq_summary (fst (dlq_handler w (Some rs)))) =
   total (dlq_summary (fst (dlq_handler w (Some rs))))"
proof -
  have "\<forall>x \<in> set (concat (map (\<lambda>r. fst (process_record w r)) rs)).
          status x = ''processed'' \<or> status x = ''failed''"
    using process_record_statuses by auto
  then have "length (filter (\<lambda>x. status x = ''processed'') (concat (map (\<lambda>r. fst (process_record w r)) rs))) +
         length (filter (\<lambda>x. status x = ''failed'') (concat (map (\<lambda>r. fst (process_record w r)) rs))) =
         length (concat (map (\<lambda>r. fst (process_record w r)) rs))"
    by (rule filter_two_statuses)
  then show ?thesis
    by (simp add: dlq_handler_def Let_def process_records_acc)
qed

lemma one_result_without_delete_failure:
  assumes "truthy (DLQ_URL w) \<longrightarrow> (\<exists>u. sqs_delete w r = Inr u)"
  shows "length (fst (process_record w r)) = 1"
  using assms
  by (cases "processDLQMessage w r") (auto simp: process_record_def split: sum.splits)

lemma total_without_delete_failure:
  assumes "\<forall>r \<in> set rs. truthy (DLQ_URL w) \<longrightarrow> (\<exists>u. sqs_delete w r = Inr u)"
  shows "total (dlq_summary (fst (dlq_handler w (Some rs)))) = length rs"
proof -
  have "length (concat (map (\<lambda>r. fst (process_record w r)) rs)) = length rs"
    using assms
  proof (induction rs)
    case Nil
    then show ?case by simp
  next
    case (Cons r rs)
    then show ?case using one_result_without_delete_failure [of w r] by simp
  qed
  then show ?thesis by (simp add: dlq_handler_def Let_def process_records_acc)
qed

text \<open>
  Claim C6 says one result per entry and a total equal to the size of the batch. For a
  batch of one entry whose processing completes and whose delete call rejects, the
  handler pushes the entry's \<open>processed\<close> result and then, from the \<open>catch\<close> around the
  delete, a \<open>failed\<close> result for the same entry: two results and a total of 2.
\<close>

theorem rejected_delete_counts_entry_twice:
  "map status (dlq_results (fst (dlq_handler (example_dlq_env True False)
      (Some [example_record ''Connection timeout'' 1 (Some ''1700000000000'')])))) =
     [''processed'', ''failed''] \<and>
   dlq_summary (fst (dlq_handler (example_dlq_env True False)
      (Some [example_record ''Connection timeout'' 1 (Some ''1700000000000'')]))) =
     \<lparr>processed = 1, failed = 1, total = 2\<rparr>"
proof -
  let ?w = "example_dlq_env True False"
  let ?r = "example_record ''Connection timeout'' 1 (Some ''1700000000000'')"
  have an: "analyzeFailure (Date_now ?w)
      (extract_failure_info (example_record ''Connection timeout'' n (Some ''1700000000000'')))
      example_event =
    Inr \<lparr>shouldRetry = True, isCritical = False, failureType = ''timeout'',
        recommendations = [''Consider increasing timeout for subscriber'']\<rparr>" for n
    unfolding example_dlq_facts(2) by (rule example_analysis(1))
  have env: "sns_republish ?w x = Inr ()" "sqs_delete ?w x = Inl ''delete refused''"
    "DLQ_URL ?w = Some ''https://sqs.example.com/dlq''"
    "CRITICAL_FAILURE_TOPIC_ARN ?w = None" for x
    by (simp_all add: example_dlq_env_def)
  have "\<exists>res. snd (processDLQMessage ?w
                      (example_record ''Connection timeout'' n (Some ''1700000000000''))) = Inr res" for n
    by (simp add: processDLQMessage_def Let_def example_dlq_facts(1) an retryDelivery_def env
        truthy_def)
  then obtain res where res: "snd (processDLQMessage ?w ?r) = Inr res" by blast
  then have st: "status res = ''processed''" by (rule processDLQMessage_status)
  have "fst (process_record ?w ?r) = [res, failed_result ?r (ServiceError ''delete refused'')]"
    using res by (cases "processDLQMessage ?w ?r") (simp add: process_record_def env truthy_def)
  then have results: "dlq_results (fst (dlq_handler ?w (Some [?r]))) =
      [res, failed_result ?r (ServiceError ''delete refused'')]"
    by (simp add: dlq_handler_results)
  define out where "out = fst (dlq_handler ?w (Some [?r]))"
  have "dlq_summary out =
      \<lparr>processed = length (filter (\<lambda>x. status x = ''processed'') (dlq_results out)),
       failed = length (filter (\<lambda>x. status x = ''failed'') (dlq_results out)),
       total = length (dlq_results out)\<rparr>"
    unfolding out_def by (simp add: dlq_handler_def Let_def)
  moreover have "dlq_results out = [res, failed_result ?r (ServiceError ''delete refused'')]"
    unfolding out_def by (rule results)
  ultimately have "map status (dlq_results out) = [''processed'', ''failed''] \<and>
      dlq_summary out = \<lparr>processed = 1, failed = 1, total = 2\<rparr>"
    using st by (simp add: failed_result_def)
  then show ?thesis unfolding out_def .
qed

section \<open>Deletion follows processing\<close>

lemma process_record_trace:
  "snd (process_record w r) =
     fst (processDLQMessage w r) @
     (if (\<exists>res. snd (processDLQMessage w r) = Inr res) \<and> truthy (DLQ_URL w)
      then [DeleteMessage (the (DLQ_URL w)) (receiptHandle r)] else [])"
  by (cases "processDLQMessage w r") (auto simp: process_record_def split: sum.splits)

text \<open>
  Claim C7. The calls of a batch are the calls of its entries, in order. The calls of one
  entry are those of its processing, followed by one delete call exactly when the
  processing returned and a queue is configured; the processing itself never deletes.
  So a delete is issued only after the entry's processing has returned, and never for an
  entry whose processing threw.
\<close>

theorem delete_only_after_processing:
  "snd (dlq_handler w (Some rs)) = concat (map (\<lambda>r. snd (process_record w r)) rs) \<and>
   (\<forall>r. snd (process_record w r) =
          fst (processDLQMessage w r) @
          (if (\<exists>res. snd (processDLQMessage w r) = Inr res) \<and> truthy (DLQ_URL w)
           then [DeleteMessage (the (DLQ_URL w)) (receiptHandle r)] else [])) \<and>
   (\<forall>r q h. DeleteMessage q h \<notin> set (fst (processDLQMessage w r))) \<and>
   (\<forall>r t q h. snd (processDLQMessage w r) = Inl t \<longrightarrow>
        DeleteMessage q h \<notin> set (snd (process_record w r)))"
proof (intro conjI allI impI)
  show "snd (dlq_handler w (Some rs)) = concat (map (\<lambda>r. snd (process_record w r)) rs)"
    by (rule dlq_handler_trace)
next
  fix r
  show "snd (process_record w r) =
          fst (processDLQMessage w r) @
          (if (\<exists>res. snd (processDLQMessage w r) = Inr res) \<and> truthy (DLQ_URL w)
           then [DeleteMessage (the (DLQ_URL w)) (receiptHandle r)] else [])"
    by (rule process_record_trace)
next
  fix r q h
  show "DeleteMessage q h \<notin> set (fst (processDLQMessage w r))"
    by (rule processDLQMessage_never_deletes)
next
  fix r t q h
  assume "snd (processDLQMessage w r) = Inl t"
  then have "snd (process_record w r) = fst (processDLQMessage w r)"
    by (simp add: process_record_trace)
  then show "DeleteMessage q h \<notin> set (snd (process_record w r))"
    by (simp add: processDLQMessage_never_deletes)
qed

text \<open>
  The theorem at two entries: one whose body does not parse, for which no call at all is
  issued, and the concrete entry, whose calls end with the delete.
\<close>

theorem delete_only_after_processing_witness:
  "snd (processDLQMessage (example_dlq_env True True)
          ((example_record ''HTTP 503'' 1 None)\<lparr>record_body := ''not json''\<rparr>)) = Inl SyntaxError \<and>
   (\<forall>q h. DeleteMessage q h \<notin>
      set (snd (process_record (example_dlq_env True True)
                  ((example_record ''HTTP 503'' 1 None)\<lparr>record_body := ''not json''\<rparr>)))) \<and>
   snd (dlq_handler (example_dlq_env True True)
          (Some [example_record ''Connection timeout'' 1 (Some ''1700000000000'')])) =
     fst (processDLQMessage (example_dlq_env True True)
            (example_record ''Connection timeout'' 1 (Some ''1700000000000''))) @
     [DeleteMessage ''https://sqs.example.com/dlq'' ''rh-1'']"
proof -
  let ?w = "example_dlq_env True True"
  let ?bad = "(example_record ''HTTP 503'' 1 None)\<lparr>record_body := ''not json''\<rparr>"
  let ?good = "example_record ''Connection timeout'' 1 (Some ''1700000000000'')"
  note t = delete_only_after_processing [of ?w "[?good]"]
  have "parse_event ?w ?bad = Inl SyntaxError"
    by (simp add: parse_event_def example_dlq_env_def example_record_def)
  then have bad: "snd (processDLQMessage ?w ?bad) = Inl SyntaxError"
    by (simp add: processDLQMessage_def)
  then have a: "\<forall>q h. DeleteMessage q h \<notin> set (snd (process_record ?w ?bad))"
    using t by blast
  have an: "analyzeFailure (Date_now ?w)
      (extract_failure_info (example_record ''Connection timeout'' n (Some ''1700000000000'')))
      example_event =
    Inr \<lparr>shouldRetry = True, isCritical = False, failureType = ''timeout'',
        recommendations = [''Consider increasing timeout for subscriber'']\<rparr>" for n
    unfolding example_dlq_facts(2) by (rule example_analysis(1))
  have env: "sns_republish ?w x = Inr ()" "DLQ_URL ?w = Some ''https://sqs.example.com/dlq''"
    "CRITICAL_FAILURE_TOPIC_ARN ?w = None" for x
    by (simp_all add: example_dlq_env_def)
  have "\<exists>res. snd (processDLQMessage ?w
                      (example_record ''Connection timeout'' n (Some ''1700000000000''))) = Inr res" for n
    by (simp add: processDLQMessage_def Let_def example_dlq_facts(1) an retryDelivery_def env
        truthy_def)
  then have good: "\<exists>res. snd (processDLQMessage ?w ?good) = Inr res" by blast
  have rh: "receiptHandle (example_record reason n s) = ''rh-1''" for reason n s
    by (simp add: example_record_def)
  have "snd (process_record ?w ?good) =
      fst (processDLQMessage ?w ?good) @ [DeleteMessage ''https://sqs.example.com/dlq'' ''rh-1'']"
    using t good by (simp add: env truthy_def rh)
  moreover have "snd (dlq_handler ?w (Some [?good])) = snd (process_record ?w ?good)"
    using t by simp
  ultimately have b: "snd (dlq_handler ?w (Some [?good])) =
      fst (processDLQMessage ?w ?good) @ [DeleteMessage ''https://sqs.example.com/dlq'' ''rh-1'']"
    by simp
  from bad a b show ?thesis by blast
qed

section \<open>The advisory header validation\<close>

text \<open>
  What holds for every header object: a value longer than 8192 is flagged, and so is a key
  or value matching one of the two patterns without state; an object with nothing to flag
  yields no issue. The function is total.
\<close>

lemma check_headers_member:
  assumes "entry \<in> set hs" and "\<And>li. x \<in> set (fst (check_header li entry))"
  shows "x \<in> set (check_headers li0 hs)"
  using assms(1)
proof (induction hs arbitrary: li0)
  case Nil
  then show ?case by simp
next
  case (Cons h hs)
  show ?case
  proof (cases "entry = h")
    case True
    then show ?thesis using assms(2) [of li0] by (simp add: Let_def)
  next
    case False
    then have "entry \<in> set hs" using Cons.prems by simp
    then show ?thesis using Cons.IH by (simp add: Let_def)
  qed
qed

lemma validateHeaders_flags_long_values:
  assumes "(key, v) \<in> set hs" and "length v > 8192"
  shows "too_long_issue key (length v) \<in> set (issues (validateHeaders (Some hs)))"
proof -
  have "too_long_issue key (length v) \<in> set (fst (check_header li (key, v)))" for li
    using assms(2) by (simp add: check_header_def Let_def)
  then have "too_long_issue key (length v) \<in> set (check_headers 0 hs)"
    using assms(1) check_headers_member by blast
  then show ?thesis by (simp add: validateHeaders_def Let_def)
qed

lemma validateHeaders_flags_script:
  assumes "(key, v) \<in> set hs" and "script_test v \<or> script_test key"
  shows "in_header ''Script content detected in headers'' key
           \<in> set (issues (validateHeaders (Some hs)))"
proof -
  have "in_header ''Script content detected in headers'' key
          \<in> set (fst (check_header li (key, v)))" for li
    using assms(2) by (simp add: check_header_def Let_def)
  then have "in_header ''Script content detected in headers'' key \<in> set (check_headers 0 hs)"
    using assms(1) check_headers_member by blast
  then show ?thesis by (simp add: validateHeaders_def Let_def)
qed

lemma validateHeaders_flags_javascript:
  assumes "(key, v) \<in> set hs" and "javascript_test v \<or> javascript_test key"
  shows "in_header ''JavaScript protocol detected in headers'' key
           \<in> set (issues (validateHeaders (Some hs)))"
proof -
  have "in_header ''JavaScript protocol detected in headers'' key
          \<in> set (fst (check_header li (key, v)))" for li
    using assms(2) by (simp add: check_header_def Let_def)
  then have "in_header ''JavaScript protocol detected in headers'' key \<in> set (check_headers 0 hs)"
    using assms(1) check_headers_member by blast
  then show ?thesis by (simp add: validateHeaders_def Let_def)
qed

lemma validateHeaders_clean:
  assumes "\<forall>entry \<in> set hs.
             length (snd entry) \<le> 8192 \<and>
             \<not> script_test (snd entry) \<and> \<not> script_test (fst entry) \<and>
             \<not> javascript_test (snd entry) \<and> \<not> javascript_test (fst entry) \<and>
             html_tag_exec 0 (snd entry) = None \<and> html_tag_exec 0 (fst entry) = None"
  shows "validateHeaders (Some hs) = \<lparr>isValid = True, issues = []\<rparr>"
proof -
  have "check_headers 0 hs = []"
    using assms
  proof (induction hs)
    case Nil
    then show ?case by simp
  next
    case (Cons h hs)
    then have "check_header 0 h = ([], 0)"
      by (simp add: check_header_def Let_def html_tag_test_def)
    then show ?case using Cons by (simp add: Let_def)
  qed
  then show ?thesis by (simp add: validateHeaders_def Let_def)
qed

text \<open>
  Claim C8 says that every key or value with an HTML tag is flagged. With the two headers
  \<open>a: <b>\<close> and \<open>b: <i>\<close> the code flags only the first: the match on \<open><b>\<close> leaves the
  shared pattern's \<open>lastIndex\<close> at 3, and the test of \<open><i>\<close> starts there, past its tag.
  Alone, the second header is flagged.
\<close>

theorem validateHeaders_misses_second_tag:
  "issues (validateHeaders (Some [(''a'', ''<b>''), (''b'', ''<i>'')])) =
     [in_header ''HTML tags detected in headers'' ''a''] \<and>
   issues (validateHeaders (Some [(''b'', ''<i>'')])) =
     [in_header ''HTML tags detected in headers'' ''b'']"
  by code_simp

section \<open>The store branch of the modular handler\<close>

lemma processWebhook_200:
  assumes "statusCode (fst (processWebhook e mongoUri event)) = 200"
  shows "\<exists>s db coll ed. fst (processWebhook e mongoUri event) =
           compose_response (Some (storeWebhook db coll ed)) s db coll event"
proof (cases "getConfig e")
  case (Inl err)
  then have "statusCode (fst (processWebhook e mongoUri event)) = 500"
    by (simp add: processWebhook_def error_response_def)
  with assms show ?thesis by simp
next
  case (Inr c)
  show ?thesis
  proof (cases "if \<not> truthy mongoUri then ssm_getParameter e (mongodbUriParameter c)
          else Inr (the mongoUri)")
    case (Inl err)
    then have "statusCode (fst (processWebhook e mongoUri event)) = 500"
      using processWebhook_error [OF Inr] by blast
    with assms show ?thesis by simp
  next
    case uri: (Inr uri)
    show ?thesis unfolding processWebhook_dispatch [OF Inr uri] fst_conv by blast
  qed
qed

lemma handler_200:
  assumes h: "handler e mongoUri event = Inr (r, st)" and ok: "statusCode r = 200"
  shows "r = fst (processWebhook e mongoUri event)"
proof (cases "httpMethod event = Some ''GET''")
  case True
  then have "r = method_not_allowed ''GET requests are not supported by this webhook endpoint'' event"
    using h by (simp add: handler_def)
  then have "statusCode r = 405" by (simp add: method_not_allowed_def)
  with ok show ?thesis by simp
next
  case False
  show ?thesis
  proof (cases "validateMethod e (httpMethod event)")
    case (Inl err)
    then show ?thesis using h False by (simp add: handler_def)
  next
    case (Inr allowed)
    show ?thesis
    proof (cases allowed)
      case True
      then show ?thesis using h False Inr by (auto simp: handler_def)
    next
      case no: False
      then have "statusCode r = 405"
        using h False Inr by (auto simp: handler_def method_not_allowed_def)
      with ok show ?thesis by simp
    qed
  qed
qed

text \<open>
  Claim C9. The store branch of the modular handler is a placeholder that always reports
  success. So whenever the exported handler reaches the composition of the response
  (status 200), \<open>operations_status.mongodb\<close> is \<open>success\<close>, and the message is neither
  that of a failed store nor that of two failures: those two states of the composition
  are unreachable.
\<close>

theorem modular_store_always_success:
  "success (storeWebhook db coll ed) \<and>
   (handler e mongoUri event = Inr (r, st) \<and> statusCode r = 200 \<longrightarrow>
      map_of (operations_status r) ''mongodb'' = Some ''success'' \<and>
      message r \<noteq> ''Webhook received, logged, and published successfully. MongoDB storage failed.'' \<and>
      message r \<noteq> ''Webhook received and logged successfully. Both MongoDB storage and SNS publishing failed.'')"
proof (intro conjI impI)
  show "success (storeWebhook db coll ed)" by (simp add: storeWebhook_success)
next
  assume a: "handler e mongoUri event = Inr (r, st) \<and> statusCode r = 200"
  then have r: "r = fst (processWebhook e mongoUri event)" using handler_200 by blast
  with a have "statusCode (fst (processWebhook e mongoUri event)) = 200" by simp
  then obtain s db' coll' ed' where
    c: "r = compose_response (Some (storeWebhook db' coll' ed')) s db' coll' event"
    unfolding r using processWebhook_200 by blast
  show "map_of (operations_status r) ''mongodb'' = Some ''success''"
    unfolding c compose_response_operations by (simp add: storeWebhook_success)
  show "message r \<noteq> ''Webhook received, logged, and published successfully. MongoDB storage failed.''"
    unfolding c compose_response_message by (simp add: storeWebhook_success)
  show "message r \<noteq> ''Webhook received and logged successfully. Both MongoDB storage and SNS publishing failed.''"
    unfolding c compose_response_message by (simp add: storeWebhook_success)
qed

lemma example_modular_response:
  "\<exists>r. handler (example_env (Some ''arn:aws:sns:eu:1:hooks'') False False) None example_request =
          Inr (r, Some ''mongodb://db.example.com'') \<and> statusCode r = 200"
proof -
  let ?e = "example_env (Some ''arn:aws:sns:eu:1:hooks'') False False"
  have g: "getConfig ?e = Inr \<lparr>snsTopicArn = Some ''arn:aws:sns:eu:1:hooks'',
          mongodbUriParameter = ''/webhook/receiver/prod/mongodb-uri'',
          allowedMethods = [''POST'', ''PUT'', ''PATCH'', ''DELETE''],
          environment = detectEnvironment (Some ''webhook-receiver-prod'')\<rparr>"
    by (rule example_env_fields(5))
  have "\<exists>r. handler ?e None example_request = Inr (r, Some ''mongodb://db.example.com'') \<and>
          statusCode r = 200 \<and>
          operations_status r = [(''mongodb'', ''success''), (''sns'', if False then ''success'' else ''failed'')]"
    by (rule modular_settle_all [OF g example_request_method(1) _ _ refl, where publish_ok = False])
       (simp_all add: example_env_fields truthy_def isSNSConfigured_def)
  then show ?thesis by blast
qed

text \<open>
  The theorem at the concrete request, with an environment whose document store and topic
  both refuse: the modular handler never calls the store and reports it a success.
\<close>

theorem modular_store_always_success_witness:
  "\<exists>r st. handler (example_env (Some ''arn:aws:sns:eu:1:hooks'') False False) None example_request =
              Inr (r, st) \<and>
          statusCode r = 200 \<and>
          map_of (operations_status r) ''mongodb'' = Some ''success''"
proof -
  obtain r where r: "handler (example_env (Some ''arn:aws:sns:eu:1:hooks'') False False) None example_request =
          Inr (r, Some ''mongodb://db.example.com'')" "statusCode r = 200"
    using example_modular_response by blast
  then have "map_of (operations_status r) ''mongodb'' = Some ''success''"
    using modular_store_always_success [of "''prod-webhook''" "''messages-telegram''"
        "extractEventData (example_env (Some ''arn:aws:sns:eu:1:hooks'') False False) example_request"
        "example_env (Some ''arn:aws:sns:eu:1:hooks'') False False" None example_request r
        "Some ''mongodb://db.example.com''"]
    by blast
  with r show ?thesis by blast
qed

section \<open>Entries of unknown age\<close>

text \<open>
  Claim C10. When the entry has no \<open>SentTimestamp\<close>, or one that \<open>parseInt\<close> reads as
  \<open>NaN\<close>, the computed age is \<open>NaN\<close>, the comparison with 24 hours is false, and the
  analysis keeps the decision of the classification: \<open>shouldRetry\<close> holds exactly when
  the reason contains \<open>timeout\<close> or the digit 5, and no age recommendation is recorded.
\<close>

theorem unknown_age_never_gates:
  assumes ts: "SentTimestamp r = None \<or> parseInt (SentTimestamp r) = NaN"
    and an: "analyzeFailure now (extract_failure_info r) webhookEvent = Inr a"
  shows "js_sub (Num (of_int now)) (parseInt (sentTimestamp (extract_failure_info r))) = NaN \<and>
         \<not> js_gt (js_div (js_sub (Num (of_int now))
                             (parseInt (sentTimestamp (extract_failure_info r))))
                     (1000 * 60 * 60)) 24 \<and>
         shouldRetry a = shouldRetry (classify (failureReason (extract_failure_info r))) \<and>
         shouldRetry a = (str_includes (failureReason (extract_failure_info r)) ''timeout'' \<or>
                          str_includes (failureReason (extract_failure_info r)) ''5'') \<and>
         ''Message too old for retry'' \<notin> set (recommendations a)"
proof -
  have "parseInt (SentTimestamp r) = NaN"
    using ts by (auto simp: parseInt_def)
  then have nan: "parseInt (sentTimestamp (extract_failure_info r)) = NaN"
    by (simp add: extract_failure_info_def)
  have age: "js_sub (Num (of_int now)) (parseInt (sentTimestamp (extract_failure_info r))) = NaN"
    by (simp add: nan js_sub_def)
  have gate: "\<not> js_gt (js_div (js_sub (Num (of_int now))
                             (parseInt (sentTimestamp (extract_failure_info r))))
                     (1000 * 60 * 60)) 24"
    by (simp add: age js_div_def js_gt_def)
  have sr: "shouldRetry a = shouldRetry (classify (failureReason (extract_failure_info r)))"
    using analyzeFailure_shouldRetry [OF an] gate by simp
  have recs: "''Message too old for retry'' \<notin> set (recommendations a)"
    using analyzeFailure_recommendations [OF an] gate by simp
  from age gate sr recs show ?thesis by (simp add: classify_shouldRetry)
qed

text \<open>
  The theorem at an entry with the reason \<open>HTTP 503\<close> and no timestamp, and at one whose
  timestamp is the word \<open>soon\<close>: both keep \<open>shouldRetry\<close>.
\<close>

theorem unknown_age_never_gates_witness:
  "(\<exists>a. analyzeFailure 1700000060000 (extract_failure_info (example_record ''HTTP 503'' 1 None))
           example_event = Inr a \<and>
        shouldRetry a \<and> ''Message too old for retry'' \<notin> set (recommendations a)) \<and>
   (\<exists>a. analyzeFailure 1700000060000
           (extract_failure_info (example_record ''HTTP 503'' 1 (Some ''soon''))) example_event = Inr a \<and>
        shouldRetry a \<and> ''Message too old for retry'' \<notin> set (recommendations a))"
proof -
  have p: "path_is_critical example_event = Inr False" by code_simp
  have ex: "\<exists>a. analyzeFailure 1700000060000 (extract_failure_info (example_record ''HTTP 503'' n s))
           example_event = Inr a" for n s
    by (simp add: analyzeFailure_def Let_def p)
  have reason: "failureReason (extract_failure_info (example_record ''HTTP 503'' n s)) = ''HTTP 503''" for n s
    by (simp add: example_dlq_facts(7))
  have five: "str_includes ''HTTP 503'' ''5''" by code_simp
  have t1: "SentTimestamp (example_record ''HTTP 503'' 1 None) = None \<or>
      parseInt (SentTimestamp (example_record ''HTTP 503'' 1 None)) = NaN"
    by (simp add: example_dlq_facts(4))
  have t2: "SentTimestamp (example_record ''HTTP 503'' 1 (Some ''soon'')) = None \<or>
      parseInt (SentTimestamp (example_record ''HTTP 503'' 1 (Some ''soon''))) = NaN"
    by (simp add: example_dlq_facts(4) example_parseInt(3))
  obtain a1 where a1: "analyzeFailure 1700000060000
      (extract_failure_info (example_record ''HTTP 503'' 1 None)) example_event = Inr a1"
    using ex by blast
  obtain a2 where a2: "analyzeFailure 1700000060000
      (extract_failure_info (example_record ''HTTP 503'' 1 (Some ''soon''))) example_event = Inr a2"
    using ex by blast
  note u1 = unknown_age_never_gates [OF t1 a1, unfolded reason]
  note u2 = unknown_age_never_gates [OF t2 a2, unfolded reason]
  have "shouldRetry a1 \<and> ''Message too old for retry'' \<notin> set (recommendations a1)"
    using u1 five by blast
  moreover have "shouldRetry a2 \<and> ''Message too old for retry'' \<notin> set (recommendations a2)"
    using u2 five by blast
  ultimately show ?thesis using a1 a2 by blast
qed

end
